theory Spec2Isabelle
  imports Complex_Main
begin

section \<open>The value algebra of \<^verbatim>\<open>Engine/dsl/T.py\<close>\<close>

text \<open>
  The module wraps a payload and a certainty factor (CF) in a \<^verbatim>\<open>T\<close> object and
  overloads the logical, arithmetic and comparison operators on it. Python is
  dynamically typed, so every function of the module accepts a \<^verbatim>\<open>T\<close> object or a
  bare value. The embedding keeps that: \<open>pyval\<close> is a raw Python value, \<open>pyobj\<close> is
  what a function of the module receives, a bare value or a \<^verbatim>\<open>T\<close> object.
\<close>

subsection \<open>Data\<close>

text \<open>
  Exceptions of Python are values: a function that can raise returns \<open>error + 'a\<close>,
  with \<open>Inl\<close> for the exception.
\<close>

datatype error = TypeError | AttributeError | ZeroDivisionError | ValueError

text \<open>
  Raw values are \<^verbatim>\<open>None\<close>, booleans, integers (unbounded), floats, strings and
  \<^verbatim>\<open>traces.TimeSeries\<close> objects. A float is modelled by the real number it denotes
  (infinities and NaN are outside the model), and so is a certainty factor, which
  is a float or the integer 1 of the default; the arithmetic on certainty factors
  rounds as Python's does (\<open>float_round\<close> below). A time series holds date-value
  pairs whose values are bare values or \<^verbatim>\<open>T\<close> objects (\<^verbatim>\<open>sandbox.fed_min_wage\<close> stores
  \<^verbatim>\<open>Stub()\<close> beside floats).

  \<^verbatim>\<open>class T: def __init__(self, value, cf=1)\<close> stores \<^verbatim>\<open>value\<close> and \<^verbatim>\<open>cf\<close>, and
  sets \<^verbatim>\<open>self.ts\<close> to \<^verbatim>\<open>type(value) is traces.timeseries.TimeSeries\<close>. No code of
  the module assigns an attribute after construction, so \<^verbatim>\<open>ts\<close> is a function of
  \<^verbatim>\<open>value\<close>: the constructor \<open>T v c\<close> carries the two stored attributes and
  \<open>is_ts_T\<close> below recomputes the third. The default \<^verbatim>\<open>cf=1\<close> is written out at each
  call that relies on it. The payload of a \<^verbatim>\<open>T\<close> object is a raw value; a \<^verbatim>\<open>T\<close>
  wrapped in a \<^verbatim>\<open>T\<close> is outside the data model.
\<close>

datatype pyval =
    PNone
  | PBool bool
  | PInt int
  | PFloat real
  | PStr string
  | PTS "(string \<times> pyobj) list"
and pyobj =
    Bare pyval
  | T pyval real

type_synonym TimeSeries = "(string \<times> pyobj) list"

text \<open>
  The \<^verbatim>\<open>traces\<close> library is not part of the repository. What the module asks of it
  is a parameter of the model, a record of four functions:
  \<^item> \<open>ts_eq s v\<close>: the truth value of \<^verbatim>\<open>s == v\<close> for a series \<^verbatim>\<open>s\<close>;
  \<^item> \<open>ts_bool s\<close>: the truth value of a series (as \<^verbatim>\<open>not s\<close> and \<^verbatim>\<open>if s\<close> test it);
  \<^item> \<open>operation s other f\<close>: \<^verbatim>\<open>s.operation(other, lambda x, y: f(x, y))\<close>;
  \<^item> \<open>operation_unary s g\<close>: \<^verbatim>\<open>s.operation(s, lambda x, y: g(x))\<close>.
  Each may raise. Every theorem below holds for every such library.
\<close>

record traces =
  ts_eq :: "TimeSeries \<Rightarrow> pyval \<Rightarrow> error + bool"
  ts_bool :: "TimeSeries \<Rightarrow> error + bool"
  operation :: "TimeSeries \<Rightarrow> pyval \<Rightarrow> (pyval \<Rightarrow> pyval \<Rightarrow> error + pyval) \<Rightarrow> error + pyval"
  operation_unary :: "TimeSeries \<Rightarrow> (pyobj \<Rightarrow> error + pyobj) \<Rightarrow> error + pyval"

subsection \<open>Python's own operations\<close>

text \<open>
  \<^verbatim>\<open>x or y\<close> on two tests that may raise: \<^verbatim>\<open>y\<close> is evaluated only when \<^verbatim>\<open>x\<close> is
  false, so an exception of \<^verbatim>\<open>y\<close> is seen only then.
\<close>

definition py_or :: "error + bool \<Rightarrow> error + bool \<Rightarrow> error + bool" where
  "py_or x y = (case x of Inl e \<Rightarrow> Inl e | Inr p \<Rightarrow> (if p then Inr True else y))"

text \<open>
  The truth value of a raw value, as \<^verbatim>\<open>not v\<close> and \<^verbatim>\<open>if v\<close> compute it: \<^verbatim>\<open>None\<close>,
  \<^verbatim>\<open>False\<close>, zero and the empty string are false; a series is asked.
\<close>

definition py_bool :: "traces \<Rightarrow> pyval \<Rightarrow> error + bool" where
  "py_bool L v =
     (case v of
        PNone \<Rightarrow> Inr False
      | PBool p \<Rightarrow> Inr p
      | PInt n \<Rightarrow> Inr (n \<noteq> 0)
      | PFloat x \<Rightarrow> Inr (x \<noteq> 0)
      | PStr s \<Rightarrow> Inr (s \<noteq> [])
      | PTS s \<Rightarrow> ts_bool L s)"

text \<open>
  Python's \<^verbatim>\<open>*\<close>, \<^verbatim>\<open>+\<close> and \<^verbatim>\<open>-\<close> on floats are those of IEEE 754 binary64: the exact
  result, rounded to the nearest float, a tie going to the float whose last bit
  is 0. A float is an integer multiple of \<open>2 ^ k / 2 ^ 1074\<close> with a multiplier below
  \<open>2 ^ 53\<close>, where \<open>k = 0\<close> for the floats below \<open>2 / 2 ^ 1022\<close> (gradual underflow). So
  \<open>float_round x\<close> scales \<open>x\<close> by \<open>2 ^ 1074\<close>, reads off \<open>k\<close> from the number of bits of
  the integer part (\<open>bit_length\<close>, Python's \<^verbatim>\<open>int.bit_length\<close>), rounds \<open>x\<close> to a
  multiple of \<open>2 ^ k\<close> and scales back. An integer below \<open>2 ^ 53\<close> in size is a float
  of the same value, so the integer 1 of a default certainty factor needs no case
  of its own. A result beyond the largest float, which is \<^verbatim>\<open>inf\<close> in Python, is
  outside the model.
\<close>

function bit_length :: "int \<Rightarrow> nat" where
  "bit_length n = (if n \<le> 0 then 0 else Suc (bit_length (n div 2)))"
  by pat_completeness auto
termination
  by (relation "measure nat") auto

declare bit_length.simps [simp del]

definition round_half_even :: "real \<Rightarrow> int" where
  "round_half_even y =
     (let f = \<lfloor>y\<rfloor>; d = y - of_int f in
      if d < 1/2 then f
      else if 1/2 < d then f + 1
      else if even f then f else f + 1)"

definition float_scale :: nat where
  "float_scale = 1074"

definition float_round :: "real \<Rightarrow> real" where
  "float_round x =
     (let y = x * 2 ^ float_scale;
          k = bit_length \<lfloor>\<bar>y\<bar>\<rfloor> - 53
      in of_int (round_half_even (y / 2 ^ k)) * 2 ^ k / 2 ^ float_scale)"

definition float_mul :: "real \<Rightarrow> real \<Rightarrow> real" where
  "float_mul x y = float_round (x * y)"

definition float_add :: "real \<Rightarrow> real \<Rightarrow> real" where
  "float_add x y = float_round (x + y)"

definition float_sub :: "real \<Rightarrow> real \<Rightarrow> real" where
  "float_sub x y = float_round (x - y)"

text \<open>
  \<^verbatim>\<open>v is 0\<close> compares identities. CPython keeps one object for the integer 0, so
  the test is true exactly of integers of value 0: the float \<^verbatim>\<open>0.0\<close> and \<^verbatim>\<open>False\<close>
  are other objects.
\<close>

definition is_0 :: "pyval \<Rightarrow> bool" where
  "is_0 v = (v = PInt 0)"

subsection \<open>Temporal substrate\<close>

text \<open>\<^verbatim>\<open>def is_timeseries(a): return type(a) is traces.timeseries.TimeSeries\<close>\<close>

definition is_timeseries :: "pyval \<Rightarrow> bool" where
  "is_timeseries a = (case a of PTS s \<Rightarrow> True | _ \<Rightarrow> False)"

text \<open>
  \<^verbatim>\<open>def apply_binary_ts_fcn(f, ts1, ts2): return ts1.operation(ts2, lambda x, y: f(x, y))\<close>

  A first argument that is no series has no attribute \<^verbatim>\<open>operation\<close>.
\<close>

definition apply_binary_ts_fcn ::
  "traces \<Rightarrow> (pyval \<Rightarrow> pyval \<Rightarrow> error + pyval) \<Rightarrow> pyval \<Rightarrow> pyval \<Rightarrow> error + pyval" where
  "apply_binary_ts_fcn L f ts1 ts2 =
     (case ts1 of PTS s \<Rightarrow> operation L s ts2 f | _ \<Rightarrow> Inl AttributeError)"

text \<open>\<^verbatim>\<open>def apply_unary_ts_fcn(f, ts): return ts.operation(ts, lambda x, y: f(x))\<close>\<close>

definition apply_unary_ts_fcn ::
  "traces \<Rightarrow> (pyobj \<Rightarrow> error + pyobj) \<Rightarrow> pyval \<Rightarrow> error + pyval" where
  "apply_unary_ts_fcn L f ts =
     (case ts of PTS s \<Rightarrow> operation_unary L s f | _ \<Rightarrow> Inl AttributeError)"

text \<open>\<^verbatim>\<open>def TS(pairs): return T(traces.TimeSeries(pairs))\<close>\<close>

definition TS :: "TimeSeries \<Rightarrow> pyobj" where
  "TS pairs = T (PTS pairs) 1"

subsection \<open>Certainty factors and accessors\<close>

text \<open>\<^verbatim>\<open>def cf_conj(a, b): return a * b\<close>\<close>

definition cf_conj :: "real \<Rightarrow> real \<Rightarrow> real" where
  "cf_conj a b = float_mul a b"

text \<open>\<^verbatim>\<open>def cf_disj(a, b): return a + b - (a * b)\<close>\<close>

definition cf_disj :: "real \<Rightarrow> real \<Rightarrow> real" where
  "cf_disj a b = float_sub (float_add a b) (float_mul a b)"

text \<open>\<^verbatim>\<open>def get_cf(a): if type(a) is T: return a.cf else: return 1\<close>\<close>

fun get_cf :: "pyobj \<Rightarrow> real" where
  "get_cf (T v c) = c"
| "get_cf (Bare v) = 1"

text \<open>\<^verbatim>\<open>def get_val(a): if type(a) is T: return a.value else: return a\<close>\<close>

fun get_val :: "pyobj \<Rightarrow> pyval" where
  "get_val (T v c) = v"
| "get_val (Bare v) = v"

text \<open>\<^verbatim>\<open>def is_ts_T(a): return type(a) is T and a.ts\<close>\<close>

fun is_ts_T :: "pyobj \<Rightarrow> bool" where
  "is_ts_T (T v c) = is_timeseries v"
| "is_ts_T (Bare v) = False"

text \<open>\<^verbatim>\<open>def is_none(a): return type(a) is T and a.value is None\<close>\<close>

fun is_none :: "pyobj \<Rightarrow> bool" where
  "is_none (T v c) = (v = PNone)"
| "is_none (Bare v) = False"

subsection \<open>Stubs\<close>

text \<open>\<^verbatim>\<open>StubVal = "#stub#"\<close>\<close>

definition StubVal :: pyval where
  "StubVal = PStr ''#stub#''"

text \<open>\<^verbatim>\<open>def Stub(cf=1): return T(StubVal, cf)\<close>\<close>

definition Stub :: "real \<Rightarrow> pyobj" where
  "Stub cf = T StubVal cf"

text \<open>
  \<^verbatim>\<open>def is_stub(a): return not is_ts_T(a) and get_val(a) == StubVal\<close>

  \<^verbatim>\<open>==\<close> against the string \<^verbatim>\<open>"#stub#"\<close> is true of that string and false of every
  other string, of \<^verbatim>\<open>None\<close>, of booleans and of numbers; a bare series is asked.
  The callers only test the result, so the model returns its truth value.
\<close>

definition is_stub :: "traces \<Rightarrow> pyobj \<Rightarrow> error + bool" where
  "is_stub L a =
     (if is_ts_T a then Inr False
      else (case get_val a of
              PTS s \<Rightarrow> ts_eq L s StubVal
            | v \<Rightarrow> Inr (v = StubVal)))"

subsection \<open>Arithmetic and comparison\<close>

text \<open>
  \<^verbatim>\<open>
  def process_binary(f, a, b):
      cf = cf_conj(get_cf(a), get_cf(b))
      if is_stub(a) or is_stub(b):
          return Stub(cf)
      elif is_none(a) or is_none(b):
          return T(None, cf)
      elif is_ts_T(a) or is_ts_T(b):
          return T(apply_binary_ts_fcn(f, get_val(a), get_val(b)), cf)
      else:
          return T(f(get_val(a), get_val(b)), cf)
  \<close>
  \<open>f\<close> is one of Python's operators (\<^verbatim>\<open>operator.add\<close>, \<^verbatim>\<open>operator.lt\<close>, ...) on raw
  values; it may raise.
\<close>

definition process_binary ::
  "traces \<Rightarrow> (pyval \<Rightarrow> pyval \<Rightarrow> error + pyval) \<Rightarrow> pyobj \<Rightarrow> pyobj \<Rightarrow> error + pyobj" where
  "process_binary L f a b =
     (let cf = cf_conj (get_cf a) (get_cf b) in
      case py_or (is_stub L a) (is_stub L b) of
        Inl e \<Rightarrow> Inl e
      | Inr p \<Rightarrow>
          if p then Inr (Stub cf)
          else if is_none a \<or> is_none b then Inr (T PNone cf)
          else if is_ts_T a \<or> is_ts_T b then
            (case apply_binary_ts_fcn L f (get_val a) (get_val b) of
               Inl e \<Rightarrow> Inl e
             | Inr r \<Rightarrow> Inr (T r cf))
          else
            (case f (get_val a) (get_val b) of
               Inl e \<Rightarrow> Inl e
             | Inr r \<Rightarrow> Inr (T r cf)))"

text \<open>
  \<^verbatim>\<open>
  def process_binary_mult(a, b):
      cf = cf_conj(get_cf(a), get_cf(b))
      if get_val(a) is 0 or get_val(b) is 0:
          return T(0, cf)
      elif is_stub(a) or is_stub(b):
          return Stub(cf)
      elif is_none(a) or is_none(b):
          return T(None, cf)
      elif is_ts_T(a) or is_ts_T(b):
          return T(apply_binary_ts_fcn(operator.mul, get_val(a), get_val(b)), cf)
      else:
          return T(get_val(a) * get_val(b), cf)
  \<close>
  Python's multiplication of raw values (\<^verbatim>\<open>operator.mul\<close>, and \<^verbatim>\<open>*\<close> in the last
  branch) is the parameter \<open>mul\<close>.
\<close>

definition process_binary_mult ::
  "traces \<Rightarrow> (pyval \<Rightarrow> pyval \<Rightarrow> error + pyval) \<Rightarrow> pyobj \<Rightarrow> pyobj \<Rightarrow> error + pyobj" where
  "process_binary_mult L mul a b =
     (let cf = cf_conj (get_cf a) (get_cf b) in
      if is_0 (get_val a) \<or> is_0 (get_val b) then Inr (T (PInt 0) cf)
      else
        case py_or (is_stub L a) (is_stub L b) of
          Inl e \<Rightarrow> Inl e
        | Inr p \<Rightarrow>
            if p then Inr (Stub cf)
            else if is_none a \<or> is_none b then Inr (T PNone cf)
            else if is_ts_T a \<or> is_ts_T b then
              (case apply_binary_ts_fcn L mul (get_val a) (get_val b) of
                 Inl e \<Rightarrow> Inl e
               | Inr r \<Rightarrow> Inr (T r cf))
            else
              (case mul (get_val a) (get_val b) of
                 Inl e \<Rightarrow> Inl e
               | Inr r \<Rightarrow> Inr (T r cf)))"

subsection \<open>Logic\<close>

text \<open>
  \<^verbatim>\<open>
  def Not(a):
      if is_none(a) or is_stub(a):
          return a
      elif is_ts_T(a):
          return T(apply_unary_ts_fcn(Not, a.value), get_cf(a))
      else:
          return T(not get_val(a), get_cf(a))
  \<close>
  In the series branch \<^verbatim>\<open>Not\<close> hands itself to the library, which applies it to
  the values of the series. The library is a parameter, so the function handed
  over is one too (\<open>self\<close>); what is proved of \<open>Not_py L self\<close> for every \<open>self\<close>
  holds of \<^verbatim>\<open>Not\<close>.
\<close>

definition Not_py :: "traces \<Rightarrow> (pyobj \<Rightarrow> error + pyobj) \<Rightarrow> pyobj \<Rightarrow> error + pyobj" where
  "Not_py L self a =
     (case py_or (Inr (is_none a)) (is_stub L a) of
        Inl e \<Rightarrow> Inl e
      | Inr p \<Rightarrow>
          if p then Inr a
          else if is_ts_T a then
            (case apply_unary_ts_fcn L self (get_val a) of
               Inl e \<Rightarrow> Inl e
             | Inr r \<Rightarrow> Inr (T r (get_cf a)))
          else
            (case py_bool L (get_val a) of
               Inl e \<Rightarrow> Inl e
             | Inr t \<Rightarrow> Inr (T (PBool (\<not> t)) (get_cf a))))"

text \<open>
  \<^verbatim>\<open>
  def more_internal_and(a, b, cf):
      if a is False or b is False:
          return T(False, cf)
      elif a is None or b is None:
          return T(None, cf)
      elif is_stub(a) or is_stub(b):
          return Stub(cf)
      else:
          return T(True, cf)
  \<close>
  \<open>a\<close> and \<open>b\<close> are raw payloads here; \<^verbatim>\<open>is_stub\<close> receives them as bare values.
  \<^verbatim>\<open>a is False\<close> is identity with the boolean \<^verbatim>\<open>False\<close>.
\<close>

definition more_internal_and :: "traces \<Rightarrow> pyval \<Rightarrow> pyval \<Rightarrow> real \<Rightarrow> error + pyobj" where
  "more_internal_and L a b cf =
     (if a = PBool False \<or> b = PBool False then Inr (T (PBool False) cf)
      else if a = PNone \<or> b = PNone then Inr (T PNone cf)
      else
        (case py_or (is_stub L (Bare a)) (is_stub L (Bare b)) of
           Inl e \<Rightarrow> Inl e
         | Inr p \<Rightarrow> (if p then Inr (Stub cf) else Inr (T (PBool True) cf))))"

text \<open>
  \<^verbatim>\<open>
  def internal_and(a, b):
      return more_internal_and(get_val(a), get_val(b), get_cf(a) * get_cf(b))
  \<close>
\<close>

definition internal_and :: "traces \<Rightarrow> pyobj \<Rightarrow> pyobj \<Rightarrow> error + pyobj" where
  "internal_and L a b =
     more_internal_and L (get_val a) (get_val b) (float_mul (get_cf a) (get_cf b))"

text \<open>
  \<^verbatim>\<open>
  def more_internal_or(a, b, cf):
      if a is True or b is True:
          return T(True, cf)
      elif a is None or b is None:
          return T(None, cf)
      elif is_stub(a) or is_stub(b):
          return Stub(cf)
      else:
          return T(False, cf)
  \<close>
\<close>

definition more_internal_or :: "traces \<Rightarrow> pyval \<Rightarrow> pyval \<Rightarrow> real \<Rightarrow> error + pyobj" where
  "more_internal_or L a b cf =
     (if a = PBool True \<or> b = PBool True then Inr (T (PBool True) cf)
      else if a = PNone \<or> b = PNone then Inr (T PNone cf)
      else
        (case py_or (is_stub L (Bare a)) (is_stub L (Bare b)) of
           Inl e \<Rightarrow> Inl e
         | Inr p \<Rightarrow> (if p then Inr (Stub cf) else Inr (T (PBool False) cf))))"

text \<open>
  \<^verbatim>\<open>
  def internal_or(a, b):
      cfa = get_cf(a)
      cfb = get_cf(b)
      return more_internal_or(get_val(a), get_val(b), cfa + cfb - (cfa * cfb))
  \<close>
\<close>

definition internal_or :: "traces \<Rightarrow> pyobj \<Rightarrow> pyobj \<Rightarrow> error + pyobj" where
  "internal_or L a b =
     (let cfa = get_cf a; cfb = get_cf b in
      more_internal_or L (get_val a) (get_val b)
        (float_sub (float_add cfa cfb) (float_mul cfa cfb)))"

text \<open>
  \<^verbatim>\<open>functools.reduce(g, args)\<close> without an initial value: it raises \<^verbatim>\<open>TypeError\<close> on an
  empty sequence, returns the only element of a sequence of one, and otherwise
  folds from the left, stopping at the first exception.
\<close>

fun reduce_from :: "('a \<Rightarrow> 'a \<Rightarrow> error + 'a) \<Rightarrow> 'a \<Rightarrow> 'a list \<Rightarrow> error + 'a" where
  "reduce_from g acc [] = Inr acc"
| "reduce_from g acc (x # xs) =
     (case g acc x of Inl e \<Rightarrow> Inl e | Inr acc' \<Rightarrow> reduce_from g acc' xs)"

fun reduce :: "('a \<Rightarrow> 'a \<Rightarrow> error + 'a) \<Rightarrow> 'a list \<Rightarrow> error + 'a" where
  "reduce g [] = Inl TypeError"
| "reduce g (x # xs) = reduce_from g x xs"

text \<open>\<^verbatim>\<open>def And(*args): return functools.reduce(internal_and, args)\<close>\<close>

definition And :: "traces \<Rightarrow> pyobj list \<Rightarrow> error + pyobj" where
  "And L args = reduce (internal_and L) args"

text \<open>\<^verbatim>\<open>def Or(*args): return functools.reduce(internal_or, args)\<close>\<close>

definition Or :: "traces \<Rightarrow> pyobj list \<Rightarrow> error + pyobj" where
  "Or L args = reduce (internal_or L) args"

subsection \<open>Operators of \<^verbatim>\<open>T\<close>\<close>

text \<open>
  \<^verbatim>\<open>
  def __invert__(self):
      if self.value is None:
          return T(None)
      else:
          return T(not self.value, self.cf)
  \<close>
  \<open>self\<close> is a \<^verbatim>\<open>T\<close> object, whose \<^verbatim>\<open>value\<close> and \<^verbatim>\<open>cf\<close> are \<open>get_val self\<close> and
  \<open>get_cf self\<close>.
\<close>

definition T_invert :: "traces \<Rightarrow> pyobj \<Rightarrow> error + pyobj" where
  "T_invert L self =
     (if get_val self = PNone then Inr (T PNone 1)
      else
        (case py_bool L (get_val self) of
           Inl e \<Rightarrow> Inl e
         | Inr t \<Rightarrow> Inr (T (PBool (\<not> t)) (get_cf self))))"

text \<open>
  \<^verbatim>\<open>def __eq__(self, o): return process_binary(operator.eq, self, o)\<close>

  \<^verbatim>\<open>operator.eq\<close> on raw values is the parameter \<open>eq\<close>.
\<close>

definition T_eq ::
  "traces \<Rightarrow> (pyval \<Rightarrow> pyval \<Rightarrow> error + pyval) \<Rightarrow> pyobj \<Rightarrow> pyobj \<Rightarrow> error + pyobj" where
  "T_eq L eq self o' = process_binary L eq self o'"

text \<open>\<^verbatim>\<open>def __ne__(self, o): return ~ (self == o)\<close>\<close>

definition T_ne ::
  "traces \<Rightarrow> (pyval \<Rightarrow> pyval \<Rightarrow> error + pyval) \<Rightarrow> pyobj \<Rightarrow> pyobj \<Rightarrow> error + pyobj" where
  "T_ne L eq self o' =
     (case T_eq L eq self o' of Inl e \<Rightarrow> Inl e | Inr r \<Rightarrow> T_invert L r)"

subsection \<open>Conditionals\<close>

text \<open>
  \<^verbatim>\<open>
  def If(a, b, c):
      if is_none(a) or is_stub(a):
          return a
      elif get_val(a):
          if type(b) is T:
              return b
          else:
              return T(b)
      else:
          if type(c) is T:
              return c
          else:
              return T(c)
  \<close>
  The two inner tests are the same code on \<^verbatim>\<open>b\<close> and on \<^verbatim>\<open>c\<close>; \<open>lift\<close> is that code.
\<close>

fun lift :: "pyobj \<Rightarrow> pyobj" where
  "lift (T v c) = T v c"
| "lift (Bare v) = T v 1"

definition If_py :: "traces \<Rightarrow> pyobj \<Rightarrow> pyobj \<Rightarrow> pyobj \<Rightarrow> error + pyobj" where
  "If_py L a b c =
     (case py_or (Inr (is_none a)) (is_stub L a) of
        Inl e \<Rightarrow> Inl e
      | Inr p \<Rightarrow>
          if p then Inr a
          else
            (case py_bool L (get_val a) of
               Inl e \<Rightarrow> Inl e
             | Inr t \<Rightarrow> (if t then Inr (lift b) else Inr (lift c))))"

subsection \<open>Vocabulary of the properties\<close>

text \<open>
  An operand of an expression is a wrapped value or a bare scalar; a series
  enters an expression wrapped (\<open>TS\<close>).
\<close>

fun operand :: "pyobj \<Rightarrow> bool" where
  "operand (T v c) = True"
| "operand (Bare v) = (\<not> is_timeseries v)"

text \<open>The four logic payloads: \<^verbatim>\<open>True\<close>, \<^verbatim>\<open>False\<close>, Unset (\<^verbatim>\<open>None\<close>) and the Stub marker.\<close>

definition logic :: "pyval \<Rightarrow> bool" where
  "logic v = (v = PBool True \<or> v = PBool False \<or> v = PNone \<or> v = StubVal)"

text \<open>
  Sequencing of two calls, the second on the result of the first: an exception
  of the first is the exception of the whole.
\<close>

definition then_py :: "error + 'a \<Rightarrow> ('a \<Rightarrow> error + 'b) \<Rightarrow> error + 'b" where
  "then_py m k = (case m of Inl e \<Rightarrow> Inl e | Inr x \<Rightarrow> k x)"

text \<open>
  Concrete arguments for evaluating the model: a library in which a series
  equals nothing, is true, and cannot be combined; an operator that raises on
  every input, and one that returns a fixed value.
\<close>

definition null_traces :: traces where
  "null_traces =
     \<lparr>ts_eq = (\<lambda>s v. Inr False),
      ts_bool = (\<lambda>s. Inr True),
      operation = (\<lambda>s other f. Inl ValueError),
      operation_unary = (\<lambda>s g. Inl ValueError)\<rparr>"

definition always_raises :: "pyval \<Rightarrow> pyval \<Rightarrow> error + pyval" where
  "always_raises x y = Inl TypeError"

definition always_returns :: "pyval \<Rightarrow> pyval \<Rightarrow> pyval \<Rightarrow> error + pyval" where
  "always_returns r x y = Inr r"

text \<open>
  A payload equals numeric zero when Python's \<^verbatim>\<open>v == 0\<close> holds: of the integer 0, of
  the float 0.0 and of \<^verbatim>\<open>False\<close>, which Python counts as the integer 0.
\<close>

definition numeric_zero :: "pyval \<Rightarrow> bool" where
  "numeric_zero v = (v = PInt 0 \<or> v = PFloat 0 \<or> v = PBool False)"

text \<open>
  A conjunction or disjunction of two certainty factors is exact when the float
  that Python computes is the real product, or the real probabilistic sum.
\<close>

definition exact_conj :: "real \<Rightarrow> real \<Rightarrow> bool" where
  "exact_conj x y = (float_mul x y = x * y)"

definition exact_disj :: "real \<Rightarrow> real \<Rightarrow> bool" where
  "exact_disj x y = (float_sub (float_add x y) (float_mul x y) = x + y - x * y)"

text \<open>The floats that Python writes \<^verbatim>\<open>0.1\<close>, \<^verbatim>\<open>0.2\<close>, \<^verbatim>\<open>0.3\<close> and \<^verbatim>\<open>0.4\<close>.\<close>

definition float_0_1 :: real where
  "float_0_1 = 3602879701896397 / 2 ^ 55"

definition float_0_2 :: real where
  "float_0_2 = 3602879701896397 / 2 ^ 54"

definition float_0_3 :: real where
  "float_0_3 = 5404319552844595 / 2 ^ 54"

definition float_0_4 :: real where
  "float_0_4 = 3602879701896397 / 2 ^ 53"

section \<open>Properties\<close>

subsection \<open>Rounding\<close>

lemma bit_length_0: "n \<le> 0 \<Longrightarrow> bit_length n = 0"
  by (simp add: bit_length.simps)

lemma bit_length_double: "0 < n \<Longrightarrow> bit_length (2 * n) = Suc (bit_length n)"
  by (subst bit_length.simps) simp

lemma bit_length_shift: "0 < n \<Longrightarrow> bit_length (n * 2 ^ j) = bit_length n + j"
proof (induction j)
  case 0
  then show ?case by simp
next
  case (Suc j)
  have "0 < n * 2 ^ j" using Suc.prems by simp
  then have "bit_length (2 * (n * 2 ^ j)) = Suc (bit_length (n * 2 ^ j))"
    by (rule bit_length_double)
  with Suc show ?case by (simp add: mult.commute mult.left_commute)
qed

lemma bit_length_le: "n < 2 ^ p \<Longrightarrow> bit_length n \<le> p"
proof (induction p arbitrary: n)
  case 0
  then have "n \<le> 0" by simp
  then show ?case by (simp add: bit_length_0)
next
  case (Suc p)
  show ?case
  proof (cases "n \<le> 0")
    case True
    then show ?thesis by (simp add: bit_length_0)
  next
    case False
    from Suc.prems have "n div 2 < 2 ^ p" by simp
    then have "bit_length (n div 2) \<le> p" by (rule Suc.IH)
    with False show ?thesis by (subst bit_length.simps) simp
  qed
qed

lemma round_half_even_int: "round_half_even (of_int z) = z"
  by (simp add: round_half_even_def)

lemma floor_abs_of_int: "\<lfloor>\<bar>of_int z :: real\<bar>\<rfloor> = \<bar>z\<bar>"
  by (metis floor_of_int of_int_abs)

lemma scaled:
  assumes "i \<le> float_scale"
  shows "of_int m / 2 ^ i * 2 ^ float_scale = (of_int (m * 2 ^ (float_scale - i)) :: real)"
proof -
  have "(2::real) ^ float_scale = 2 ^ i * 2 ^ (float_scale - i)"
    using assms by (simp flip: power_add)
  then show ?thesis by simp
qed

lemma unscaled:
  assumes "i \<le> float_scale"
  shows "x * 2 ^ (float_scale - i) / 2 ^ float_scale = (x / 2 ^ i :: real)"
proof -
  have "(2::real) ^ float_scale = 2 ^ i * 2 ^ (float_scale - i)"
    using assms by (simp flip: power_add)
  then show ?thesis by simp
qed

text \<open>
  A number \<open>m / 2 ^ i\<close> with \<open>m\<close> below \<open>2 ^ 53\<close> in size is a float: rounding leaves it
  as it is.
\<close>

lemma float_round_exact:
  assumes "\<bar>m\<bar> < 2 ^ 53" and "i \<le> float_scale"
  shows "float_round (of_int m / 2 ^ i) = of_int m / 2 ^ i"
proof -
  define j where "j = float_scale - i"
  define k where "k = bit_length (\<bar>m\<bar> * 2 ^ j) - 53"
  have y: "of_int m / 2 ^ i * 2 ^ float_scale = (of_int (m * 2 ^ j) :: real)"
    unfolding j_def using assms(2) by (rule scaled)
  have fl: "\<lfloor>\<bar>of_int (m * 2 ^ j) :: real\<bar>\<rfloor> = \<bar>m\<bar> * 2 ^ j"
    by (simp only: floor_abs_of_int) (simp add: abs_mult)
  have "\<bar>m\<bar> * 2 ^ j < 2 ^ (53 + j)"
    using assms(1) by (simp add: power_add)
  then have "bit_length (\<bar>m\<bar> * 2 ^ j) \<le> 53 + j" by (rule bit_length_le)
  then have kj: "k \<le> j" by (simp add: k_def)
  define d where "d = j - k"
  have jd: "j = k + d" using kj by (simp add: d_def)
  have "(of_int (m * 2 ^ j) :: real) / 2 ^ k = of_int (m * 2 ^ d)"
    unfolding jd by (simp add: power_add)
  then have r: "round_half_even (of_int (m * 2 ^ j) / 2 ^ k) = m * 2 ^ d"
    by (simp only: round_half_even_int)
  have "float_round (of_int m / 2 ^ i)
          = of_int (round_half_even (of_int (m * 2 ^ j) / 2 ^ k)) * 2 ^ k / 2 ^ float_scale"
    by (simp only: float_round_def Let_def y fl k_def)
  also have "\<dots> = of_int (m * 2 ^ d) * 2 ^ k / 2 ^ float_scale"
    by (simp only: r)
  also have "\<dots> = of_int m * 2 ^ j / 2 ^ float_scale"
    unfolding jd by (simp add: power_add)
  also have "\<dots> = of_int m / 2 ^ i"
    unfolding j_def using assms(2) by (rule unscaled)
  finally show ?thesis .
qed

text \<open>
  A number \<open>m / 2 ^ i\<close> whose \<open>m\<close> has 53 bits or more is rounded at the bit that
  leaves 53 of them.
\<close>

lemma float_round_long:
  assumes "53 \<le> bit_length \<bar>m\<bar>" and "i \<le> float_scale"
  shows "float_round (of_int m / 2 ^ i)
           = of_int (round_half_even (of_int m / 2 ^ (bit_length \<bar>m\<bar> - 53)))
               * 2 ^ (bit_length \<bar>m\<bar> - 53) / 2 ^ i"
proof -
  define j where "j = float_scale - i"
  define b where "b = bit_length \<bar>m\<bar>"
  have pos: "0 < \<bar>m\<bar>"
  proof (rule ccontr)
    assume "\<not> 0 < \<bar>m\<bar>"
    then have "bit_length \<bar>m\<bar> = 0" by (simp add: bit_length_0)
    with assms(1) show False by simp
  qed
  have y: "of_int m / 2 ^ i * 2 ^ float_scale = (of_int (m * 2 ^ j) :: real)"
    unfolding j_def using assms(2) by (rule scaled)
  have fl: "\<lfloor>\<bar>of_int (m * 2 ^ j) :: real\<bar>\<rfloor> = \<bar>m\<bar> * 2 ^ j"
    by (simp only: floor_abs_of_int) (simp add: abs_mult)
  have bl: "bit_length (\<bar>m\<bar> * 2 ^ j) = b + j"
    unfolding b_def using pos by (rule bit_length_shift)
  have k: "b + j - 53 = (b - 53) + j"
    using assms(1) by (simp add: b_def)
  have "float_round (of_int m / 2 ^ i)
          = of_int (round_half_even (of_int (m * 2 ^ j) / 2 ^ ((b - 53) + j)))
              * 2 ^ ((b - 53) + j) / 2 ^ float_scale"
    by (simp only: float_round_def Let_def y fl bl k)
  also have "\<dots> = of_int (round_half_even (of_int m / 2 ^ (b - 53)))
                      * 2 ^ (b - 53) * 2 ^ j / 2 ^ float_scale"
    by (simp add: power_add)
  also have "\<dots> = of_int (round_half_even (of_int m / 2 ^ (b - 53))) * 2 ^ (b - 53) / 2 ^ i"
    unfolding j_def using assms(2) by (rule unscaled)
  finally show ?thesis by (simp only: b_def)
qed

lemma float_mul_commute: "float_mul x y = float_mul y x"
  by (simp add: float_mul_def mult.commute)

lemma float_add_commute: "float_add x y = float_add y x"
  by (simp add: float_add_def add.commute)

text \<open>Some fractions with a power of two below them, which are floats.\<close>

lemma float_round_dyadic:
  "float_round 1 = 1" "float_round (1/2) = 1/2" "float_round (1/4) = 1/4"
  "float_round (3/4) = 3/4" "float_round (1/8) = 1/8" "float_round (3/8) = 3/8"
  "float_round (5/8) = 5/8" "float_round (1/32) = 1/32" "float_round (11/32) = 11/32"
  "float_round (27/32) = 27/32" "float_round (1/64) = 1/64" "float_round (5/64) = 5/64"
  "float_round (11/64) = 11/64" "float_round (43/64) = 43/64"
  using float_round_exact [of 1 0] float_round_exact [of 1 1] float_round_exact [of 1 2]
    float_round_exact [of 3 2] float_round_exact [of 1 3] float_round_exact [of 3 3]
    float_round_exact [of 5 3] float_round_exact [of 1 5] float_round_exact [of 11 5]
    float_round_exact [of 27 5] float_round_exact [of 1 6] float_round_exact [of 5 6]
    float_round_exact [of 11 6] float_round_exact [of 43 6]
  by (simp_all add: float_scale_def)

subsection \<open>Auxiliary facts\<close>

lemma is_stub_T: "is_stub L (T v c) = Inr (v = StubVal)"
  by (cases v) (simp_all add: is_stub_def is_timeseries_def StubVal_def)

lemma is_stub_Bare: "\<not> is_timeseries v \<Longrightarrow> is_stub L (Bare v) = Inr (v = StubVal)"
  by (cases v) (simp_all add: is_stub_def is_timeseries_def StubVal_def)

lemma is_stub_operand: "operand a \<Longrightarrow> is_stub L a = Inr (get_val a = StubVal)"
  by (cases a) (simp_all add: is_stub_T is_stub_Bare)

lemma StubVal_operand: "get_val b = StubVal \<Longrightarrow> operand b"
  by (cases b) (simp_all add: StubVal_def is_timeseries_def)

lemma logic_not_series: "logic v \<Longrightarrow> \<not> is_timeseries v"
  by (auto simp: logic_def is_timeseries_def StubVal_def)

lemma And_two: "And L [a, b] = internal_and L a b"
  by (simp add: And_def split: sum.splits)

lemma Or_two: "Or L [a, b] = internal_or L a b"
  by (simp add: Or_def split: sum.splits)

lemma lift_eq: "lift b = T (get_val b) (get_cf b)"
  by (cases b) simp_all

subsection \<open>The dispatcher of arithmetic and comparison\<close>

lemma process_binary_result_cf:
  "process_binary L f a b = Inr r \<Longrightarrow> \<exists>v. r = T v (float_mul (get_cf a) (get_cf b))"
  by (auto simp: process_binary_def Let_def cf_conj_def Stub_def split: sum.splits if_splits)

lemma process_binary_stub:
  assumes "operand a" and "operand b" and "get_val a = StubVal \<or> get_val b = StubVal"
  shows "process_binary L f a b = Inr (Stub (float_mul (get_cf a) (get_cf b)))"
  using assms by (auto simp: process_binary_def Let_def cf_conj_def is_stub_operand py_or_def)

lemma process_binary_unset:
  assumes "operand a" and "operand b"
    and "get_val a \<noteq> StubVal" and "get_val b \<noteq> StubVal" and "is_none a \<or> is_none b"
  shows "process_binary L f a b = Inr (T PNone (float_mul (get_cf a) (get_cf b)))"
  using assms by (auto simp: process_binary_def Let_def cf_conj_def is_stub_operand py_or_def)

lemma process_binary_mult_nonzero:
  "\<not> is_0 (get_val a) \<Longrightarrow> \<not> is_0 (get_val b) \<Longrightarrow>
     process_binary_mult L mul a b = process_binary L mul a b"
  by (simp add: process_binary_mult_def process_binary_def)

lemma not_numeric_zero_not_0: "\<not> numeric_zero v \<Longrightarrow> \<not> is_0 v"
  by (simp add: numeric_zero_def is_0_def)

text \<open>
  Claim C1, amended. For operands \<open>a\<close> and \<open>b\<close>, each a wrapped value or a bare
  scalar, and every operator \<open>f\<close>:
  \<^item> whatever branch returns, the result is a wrapped value whose CF is
    \<open>float_mul (get_cf a) (get_cf b)\<close>, Python's product of the two CFs;
  \<^item> if the payload of either operand is the Stub marker, the result is
    \<open>Stub\<close> with that CF, whatever the operator;
  \<^item> otherwise, if either operand is a wrapped value whose payload is \<^verbatim>\<open>None\<close>
    (\<open>is_none\<close>), the result is the wrapped \<^verbatim>\<open>None\<close> with that CF, whatever the
    operator;
  \<^item> multiplication does the same as \<open>process_binary\<close> whenever neither payload
    equals numeric zero.
  In the second and third case the result is the same for every operator \<open>g\<close>,
  also for one that raises on every input: the operator is not called. The
  second case comes first, so Stub + Unset is Stub.
\<close>

theorem process_binary_cf_stub_unset:
  assumes "operand a" and "operand b"
  shows "(\<forall>r. process_binary L f a b = Inr r \<longrightarrow> (\<exists>v. r = T v (float_mul (get_cf a) (get_cf b))))
       \<and> (get_val a = StubVal \<or> get_val b = StubVal \<longrightarrow>
            (\<forall>g. process_binary L g a b = Inr (Stub (float_mul (get_cf a) (get_cf b)))))
       \<and> (get_val a \<noteq> StubVal \<and> get_val b \<noteq> StubVal \<and> (is_none a \<or> is_none b) \<longrightarrow>
            (\<forall>g. process_binary L g a b = Inr (T PNone (float_mul (get_cf a) (get_cf b)))))
       \<and> (\<not> numeric_zero (get_val a) \<and> \<not> numeric_zero (get_val b) \<longrightarrow>
            process_binary_mult L f a b = process_binary L f a b)"
proof (intro conjI allI impI)
  fix r assume "process_binary L f a b = Inr r"
  then show "\<exists>v. r = T v (float_mul (get_cf a) (get_cf b))" by (rule process_binary_result_cf)
next
  fix g assume "get_val a = StubVal \<or> get_val b = StubVal"
  with assms show "process_binary L g a b = Inr (Stub (float_mul (get_cf a) (get_cf b)))"
    by (rule process_binary_stub)
next
  fix g assume "get_val a \<noteq> StubVal \<and> get_val b \<noteq> StubVal \<and> (is_none a \<or> is_none b)"
  with assms show "process_binary L g a b = Inr (T PNone (float_mul (get_cf a) (get_cf b)))"
    by (simp add: process_binary_unset)
next
  assume "\<not> numeric_zero (get_val a) \<and> \<not> numeric_zero (get_val b)"
  then show "process_binary_mult L f a b = process_binary L f a b"
    by (simp add: process_binary_mult_nonzero not_numeric_zero_not_0)
qed

text \<open>
  The theorem at Stub + Unset and at 3 + Unset, with CF 1/2 on each side and an
  operator that always raises.
\<close>

theorem process_binary_cf_stub_unset_witness:
  "operand (Stub (1/2)) \<and> operand (T PNone (1/2))
   \<and> process_binary null_traces always_raises (Stub (1/2)) (T PNone (1/2)) = Inr (Stub (1/4))
   \<and> process_binary_mult null_traces always_raises (Stub (1/2)) (T PNone (1/2))
       = Inr (Stub (1/4))
   \<and> process_binary null_traces always_raises (T (PInt 3) (1/2)) (T PNone (1/2))
       = Inr (T PNone (1/4))"
proof -
  have a: "operand (Stub (1/2))" by (simp add: Stub_def)
  have b: "operand (T PNone (1/2))" by simp
  have c: "operand (T (PInt 3) (1/2))" by simp
  have v: "get_val (Stub (1/2)) = StubVal" "get_cf (Stub (1/2)) = 1/2"
    "\<not> numeric_zero (get_val (Stub (1/2)))" "\<not> numeric_zero (get_val (T PNone (1/2)))"
    by (simp_all add: Stub_def numeric_zero_def StubVal_def)
  have w: "get_val (T (PInt 3) (1/2)) \<noteq> StubVal" "get_val (T PNone (1/2)) \<noteq> StubVal"
    by (simp_all add: StubVal_def)
  have m: "float_mul (1/2) (1/2) = 1/4"
    by (simp add: float_mul_def float_round_dyadic)
  from process_binary_cf_stub_unset [OF a b, of null_traces always_raises] v m
  have 1: "process_binary null_traces always_raises (Stub (1/2)) (T PNone (1/2))
             = Inr (Stub (1/4))"
    and 2: "process_binary_mult null_traces always_raises (Stub (1/2)) (T PNone (1/2))
             = Inr (Stub (1/4))"
    by simp_all
  from process_binary_cf_stub_unset [OF c b, of null_traces always_raises] w m
  have 3: "process_binary null_traces always_raises (T (PInt 3) (1/2)) (T PNone (1/2))
             = Inr (T PNone (1/4))"
    by simp
  from a b 1 2 3 show ?thesis by blast
qed

text \<open>
  Claim C1 as stated speaks of wrapped or bare operands whose payload is
  \<^verbatim>\<open>None\<close>. \<open>is_none\<close> asks for a \<^verbatim>\<open>T\<close> object, so a bare \<^verbatim>\<open>None\<close> is handed to the
  operator like any scalar: \<^verbatim>\<open>T(5) == None\<close> is the wrapped value of
  \<^verbatim>\<open>operator.eq(5, None)\<close>, not Unset, and an operator that raises on \<^verbatim>\<open>None\<close>
  (\<^verbatim>\<open>operator.add\<close>) makes the whole call raise.
\<close>

theorem process_binary_bare_None_counterexample:
  "get_val (Bare PNone) = PNone
   \<and> process_binary null_traces (always_returns (PBool False)) (T (PInt 5) 1) (Bare PNone)
       = Inr (T (PBool False) 1)
   \<and> process_binary null_traces always_raises (T (PInt 5) 1) (Bare PNone) = Inl TypeError"
  by (simp add: process_binary_def is_stub_def py_or_def is_timeseries_def StubVal_def
      cf_conj_def float_mul_def float_round_dyadic always_returns_def always_raises_def)

subsection \<open>Multiplication by zero\<close>

text \<open>
  The short-circuit of multiplication, as far as it goes: an operand whose
  payload is the integer 0 gives the wrapped integer 0, before any other test
  and without looking at the other operand (a Stub, Unset, a scalar, a series,
  as in the second lemma).
\<close>

lemma process_binary_mult_int_zero:
  "is_0 (get_val a) \<or> is_0 (get_val b) \<Longrightarrow>
     process_binary_mult L mul a b = Inr (T (PInt 0) (float_mul (get_cf a) (get_cf b)))"
  by (auto simp add: process_binary_mult_def cf_conj_def)

text \<open>
  Claim C2 says that a payload equal to numeric zero on either side gives the
  wrapped 0. The source tests \<^verbatim>\<open>get_val(a) is 0\<close>, an identity that the float
  \<^verbatim>\<open>0.0\<close> fails although \<^verbatim>\<open>0.0 == 0\<close>: \<^verbatim>\<open>T(0.0) * Stub()\<close> and \<^verbatim>\<open>Stub() * T(0.0)\<close>
  fall through to the Stub test and return a Stub.
\<close>

lemma process_binary_mult_int_zero_series:
  "process_binary_mult null_traces always_raises
     (T (PInt 0) (1/2)) (TS [(''1900-01-01'', Stub 1), (''1997-09-01'', Bare (PFloat (103/20)))])
     = Inr (T (PInt 0) (1/2))"
  by (simp add: process_binary_mult_int_zero is_0_def TS_def float_mul_def float_round_dyadic)

theorem process_binary_mult_float_zero:
  "process_binary_mult null_traces always_raises (T (PFloat 0) 1) (Stub 1) = Inr (Stub 1)
   \<and> process_binary_mult null_traces always_raises (Stub 1) (T (PFloat 0) 1) = Inr (Stub 1)"
  by (simp add: process_binary_mult_def is_0_def is_stub_def py_or_def is_timeseries_def
      StubVal_def Stub_def cf_conj_def float_mul_def float_round_dyadic)

subsection \<open>Conjunction and disjunction\<close>

text \<open>
  Claim C3. For operands \<open>a\<close> and \<open>b\<close> (wrapped or bare) whose payloads are logic
  values, \<open>And\<close> returns a wrapped value whose CF is Python's product of the two
  CFs, \<open>float_mul (get_cf a) (get_cf b)\<close>, and the payload: \<^verbatim>\<open>False\<close> if either payload is \<^verbatim>\<open>False\<close>; else Unset if either is
  Unset; else the Stub marker if either is the Stub marker; else \<^verbatim>\<open>True\<close>.
\<close>

theorem And_truth_table:
  assumes "logic (get_val a)" and "logic (get_val b)"
  shows "And L [a, b] =
           Inr (T (if get_val a = PBool False \<or> get_val b = PBool False then PBool False
                   else if get_val a = PNone \<or> get_val b = PNone then PNone
                   else if get_val a = StubVal \<or> get_val b = StubVal then StubVal
                   else PBool True)
                  (float_mul (get_cf a) (get_cf b)))"
  using assms logic_not_series [OF assms(1)] logic_not_series [OF assms(2)]
  by (auto simp: And_two internal_and_def more_internal_and_def is_stub_Bare py_or_def
      Stub_def logic_def)

text \<open>
  The four cases the claim names: AND(False, Stub) = False, AND(Unset, Stub) =
  Unset, AND(Stub, Stub) = Stub and AND(True, True) = True, each operand with
  CF 1/2.
\<close>

theorem And_truth_table_witness:
  "And null_traces [T (PBool False) (1/2), Stub (1/2)] = Inr (T (PBool False) (1/4))
   \<and> And null_traces [T PNone (1/2), Stub (1/2)] = Inr (T PNone (1/4))
   \<and> And null_traces [Stub (1/2), Stub (1/2)] = Inr (Stub (1/4))
   \<and> And null_traces [T (PBool True) (1/2), T (PBool True) (1/2)]
       = Inr (T (PBool True) (1/4))"
proof -
  have f: "logic (get_val (T (PBool False) (1/2)))"
    and n: "logic (get_val (T PNone (1/2)))"
    and s: "logic (get_val (Stub (1/2)))"
    and t: "logic (get_val (T (PBool True) (1/2)))"
    by (simp_all add: logic_def Stub_def)
  have m: "float_mul (1/2) (1/2) = 1/4"
    by (simp add: float_mul_def float_round_dyadic)
  from And_truth_table [OF f s, of null_traces] And_truth_table [OF n s, of null_traces]
    And_truth_table [OF s s, of null_traces] And_truth_table [OF t t, of null_traces]
  show ?thesis by (simp add: Stub_def StubVal_def m)
qed

text \<open>
  Claim C4. For operands \<open>a\<close> and \<open>b\<close> whose payloads are logic values, \<open>Or\<close>
  returns a wrapped value whose CF is the probabilistic sum of the two CFs in
  Python's arithmetic,
  \<open>float_sub (float_add (get_cf a) (get_cf b)) (float_mul (get_cf a) (get_cf b))\<close>, and
  the payload: \<^verbatim>\<open>True\<close> if either payload is \<^verbatim>\<open>True\<close>; else Unset if either is
  Unset; else the Stub marker if either is the Stub marker; else \<^verbatim>\<open>False\<close>.
\<close>

theorem Or_truth_table:
  assumes "logic (get_val a)" and "logic (get_val b)"
  shows "Or L [a, b] =
           Inr (T (if get_val a = PBool True \<or> get_val b = PBool True then PBool True
                   else if get_val a = PNone \<or> get_val b = PNone then PNone
                   else if get_val a = StubVal \<or> get_val b = StubVal then StubVal
                   else PBool False)
                  (float_sub (float_add (get_cf a) (get_cf b)) (float_mul (get_cf a) (get_cf b))))"
  using assms logic_not_series [OF assms(1)] logic_not_series [OF assms(2)]
  by (auto simp: Or_two internal_or_def more_internal_or_def is_stub_Bare py_or_def
      Stub_def logic_def Let_def)

text \<open>
  The four cases the claim names: OR(True, Stub) = True, OR(Unset, Stub) =
  Unset, OR(Stub, Stub) = Stub and OR(False, False) = False, each operand with
  CF 1/2.
\<close>

theorem Or_truth_table_witness:
  "Or null_traces [T (PBool True) (1/2), Stub (1/2)] = Inr (T (PBool True) (3/4))
   \<and> Or null_traces [T PNone (1/2), Stub (1/2)] = Inr (T PNone (3/4))
   \<and> Or null_traces [Stub (1/2), Stub (1/2)] = Inr (Stub (3/4))
   \<and> Or null_traces [T (PBool False) (1/2), T (PBool False) (1/2)]
       = Inr (T (PBool False) (3/4))"
proof -
  have f: "logic (get_val (T (PBool False) (1/2)))"
    and n: "logic (get_val (T PNone (1/2)))"
    and s: "logic (get_val (Stub (1/2)))"
    and t: "logic (get_val (T (PBool True) (1/2)))"
    by (simp_all add: logic_def Stub_def)
  have m: "float_sub (float_add (1/2) (1/2)) (float_mul (1/2) (1/2)) = 3/4"
    by (simp add: float_sub_def float_add_def float_mul_def float_round_dyadic)
  from Or_truth_table [OF t s, of null_traces] Or_truth_table [OF n s, of null_traces]
    Or_truth_table [OF s s, of null_traces] Or_truth_table [OF f f, of null_traces]
  show ?thesis by (simp add: Stub_def StubVal_def m)
qed

subsection \<open>Negation\<close>

lemma Not_py_bool: "Not_py L self (T (PBool x) c) = Inr (T (PBool (\<not> x)) c)"
  by (simp add: Not_py_def py_or_def is_stub_T StubVal_def is_timeseries_def py_bool_def)

lemma Not_py_stub: "Not_py L self (Stub c) = Inr (Stub c)"
  by (simp add: Not_py_def py_or_def is_stub_T Stub_def StubVal_def)

lemma Not_py_unset: "Not_py L self (T PNone c) = Inr (T PNone c)"
  by (simp add: Not_py_def py_or_def)

lemma Not_py_cf: "Not_py L self a = Inr r \<Longrightarrow> get_cf r = get_cf a"
  by (auto simp: Not_py_def py_or_def split: sum.splits if_splits)

text \<open>
  Claim C5. On a wrapped boolean \<open>Not_py\<close> returns the complement with the same
  CF, and applied twice it returns the wrapped boolean it started from. A Stub
  and a wrapped \<^verbatim>\<open>None\<close> are returned as they are. Whatever the argument (a
  series, a bare value), a result of \<open>Not_py\<close> has the CF of the argument.
\<close>

theorem Not_py_involution_fixed_points:
  "Not_py L self (T (PBool x) c) = Inr (T (PBool (\<not> x)) c)
   \<and> then_py (Not_py L self (T (PBool x) c)) (Not_py L self) = Inr (T (PBool x) c)
   \<and> Not_py L self (Stub c) = Inr (Stub c)
   \<and> Not_py L self (T PNone c) = Inr (T PNone c)
   \<and> (\<forall>r. Not_py L self a = Inr r \<longrightarrow> get_cf r = get_cf a)"
proof (intro conjI allI impI)
  show "Not_py L self (T (PBool x) c) = Inr (T (PBool (\<not> x)) c)"
    by (rule Not_py_bool)
next
  have "then_py (Not_py L self (T (PBool x) c)) (Not_py L self)
          = Not_py L self (T (PBool (\<not> x)) c)"
    by (simp add: then_py_def Not_py_bool)
  also have "\<dots> = Inr (T (PBool (\<not> \<not> x)) c)"
    by (rule Not_py_bool)
  finally show "then_py (Not_py L self (T (PBool x) c)) (Not_py L self) = Inr (T (PBool x) c)"
    by simp
next
  show "Not_py L self (Stub c) = Inr (Stub c)"
    by (rule Not_py_stub)
next
  show "Not_py L self (T PNone c) = Inr (T PNone c)"
    by (rule Not_py_unset)
next
  fix r assume "Not_py L self a = Inr r"
  then show "get_cf r = get_cf a"
    by (rule Not_py_cf)
qed

text \<open>
  The theorem at \<^verbatim>\<open>Not(T(7, 1/4))\<close>, which returns the wrapped \<^verbatim>\<open>False\<close> with CF
  1/4, and at \<^verbatim>\<open>Not(Not(T(True, 1/4)))\<close>.
\<close>

theorem Not_py_involution_fixed_points_witness:
  "Not_py null_traces Inr (T (PInt 7) (1/4)) = Inr (T (PBool False) (1/4))
   \<and> get_cf (T (PBool False) (1/4)) = get_cf (T (PInt 7) (1/4))
   \<and> then_py (Not_py null_traces Inr (T (PBool True) (1/4))) (Not_py null_traces Inr)
       = Inr (T (PBool True) (1/4))"
proof -
  have e: "Not_py null_traces Inr (T (PInt 7) (1/4)) = Inr (T (PBool False) (1/4))"
    by (simp add: Not_py_def py_or_def is_stub_def is_timeseries_def StubVal_def py_bool_def)
  note inst =
    Not_py_involution_fixed_points [of null_traces Inr True "1/4" "T (PInt 7) (1/4)"]
  from inst e have "get_cf (T (PBool False) (1/4)) = get_cf (T (PInt 7) (1/4))" by blast
  with inst e show ?thesis by blast
qed

subsection \<open>Certainty factors of conjunction and disjunction\<close>

lemma internal_and_cf:
  "internal_and L a b = Inr r \<Longrightarrow> get_cf r = float_mul (get_cf a) (get_cf b)"
  by (auto simp: internal_and_def more_internal_and_def Stub_def split: sum.splits if_splits)

lemma internal_or_cf:
  "internal_or L a b = Inr r \<Longrightarrow>
     get_cf r = float_sub (float_add (get_cf a) (get_cf b)) (float_mul (get_cf a) (get_cf b))"
  by (auto simp: internal_or_def more_internal_or_def Stub_def Let_def
      split: sum.splits if_splits)

lemma internal_and_total:
  assumes "\<not> is_timeseries (get_val a)" and "\<not> is_timeseries (get_val b)"
  shows "\<exists>v. internal_and L a b = Inr (T v (float_mul (get_cf a) (get_cf b)))
             \<and> \<not> is_timeseries v"
  using assms
  by (auto simp: internal_and_def more_internal_and_def Stub_def is_stub_Bare py_or_def
      is_timeseries_def StubVal_def)

lemma internal_or_total:
  assumes "\<not> is_timeseries (get_val a)" and "\<not> is_timeseries (get_val b)"
  shows "\<exists>v. internal_or L a b
               = Inr (T v (float_sub (float_add (get_cf a) (get_cf b))
                                     (float_mul (get_cf a) (get_cf b))))
             \<and> \<not> is_timeseries v"
  using assms
  by (auto simp: internal_or_def more_internal_or_def Stub_def is_stub_Bare py_or_def
      is_timeseries_def StubVal_def Let_def)

lemma And_True:
  "And L [T (PBool True) c, T (PBool True) d] = Inr (T (PBool True) (float_mul c d))"
  by (simp add: And_two internal_and_def more_internal_and_def is_stub_Bare is_timeseries_def
      py_or_def StubVal_def)

text \<open>
  The product of two fractions with a power of two below them, when the product
  of what is above has \<open>53 + s\<close> bits: \<open>s\<close> bits are rounded away.
\<close>

lemma float_mul_long:
  assumes "bit_length \<bar>m * n\<bar> = 53 + s" and "i + j \<le> float_scale"
  shows "float_mul (of_int m / 2 ^ i) (of_int n / 2 ^ j)
           = of_int (round_half_even (of_int (m * n) / 2 ^ s)) * 2 ^ s / 2 ^ (i + j)"
proof -
  have "of_int m / 2 ^ i * (of_int n / 2 ^ j) = (of_int (m * n) / 2 ^ (i + j) :: real)"
    by (simp add: power_add)
  then have "float_mul (of_int m / 2 ^ i) (of_int n / 2 ^ j)
               = float_round (of_int (m * n) / 2 ^ (i + j))"
    by (simp only: float_mul_def)
  also have "\<dots> = of_int (round_half_even (of_int (m * n) / 2 ^ (bit_length \<bar>m * n\<bar> - 53)))
                      * 2 ^ (bit_length \<bar>m * n\<bar> - 53) / 2 ^ (i + j)"
    using assms by (intro float_round_long) simp_all
  also have "bit_length \<bar>m * n\<bar> - 53 = s"
    using assms(1) by simp
  finally show ?thesis .
qed

text \<open>
  The four products of the two nestings of 0.1, 0.2 and 0.3. Python prints the
  results as \<^verbatim>\<open>0.020000000000000004\<close>, \<^verbatim>\<open>0.006000000000000001\<close>, \<^verbatim>\<open>0.06\<close> and \<^verbatim>\<open>0.006\<close>.
\<close>

lemma float_mul_0_1_0_2: "float_mul float_0_1 float_0_2 = 1441151880758559 / 2 ^ 56"
proof -
  have b: "bit_length \<bar>3602879701896397 * 3602879701896397\<bar> = 53 + 51"
    by code_simp
  have "55 + 54 \<le> float_scale"
    by (simp add: float_scale_def)
  from float_mul_long [OF b this] show ?thesis
    by (simp add: float_0_1_def float_0_2_def round_half_even_def)
qed

lemma float_mul_0_02_0_3: "float_mul (1441151880758559 / 2 ^ 56) float_0_3 = 6917529027641083 / 2 ^ 60"
proof -
  have b: "bit_length \<bar>1441151880758559 * 5404319552844595\<bar> = 53 + 50"
    by code_simp
  have "56 + 54 \<le> float_scale"
    by (simp add: float_scale_def)
  from float_mul_long [OF b this] show ?thesis
    by (simp add: float_0_3_def round_half_even_def)
qed

lemma float_mul_0_2_0_3: "float_mul float_0_2 float_0_3 = 1080863910568919 / 2 ^ 54"
proof -
  have b: "bit_length \<bar>3602879701896397 * 5404319552844595\<bar> = 53 + 51"
    by code_simp
  have "54 + 54 \<le> float_scale"
    by (simp add: float_scale_def)
  from float_mul_long [OF b this] show ?thesis
    by (simp add: float_0_2_def float_0_3_def round_half_even_def)
qed

lemma float_mul_0_1_0_06: "float_mul float_0_1 (1080863910568919 / 2 ^ 54) = 3458764513820541 / 2 ^ 59"
proof -
  have b: "bit_length \<bar>3602879701896397 * 1080863910568919\<bar> = 53 + 49"
    by code_simp
  have "55 + 54 \<le> float_scale"
    by (simp add: float_scale_def)
  from float_mul_long [OF b this] show ?thesis
    by (simp add: float_0_1_def round_half_even_def)
qed

text \<open>
  Claim C6, amended. For all \<open>a\<close>, \<open>b\<close>, \<open>c\<close> of any payload kind:
  \<^item> a result of \<open>And\<close> has as CF Python's product of the two CFs and a result of
    \<open>Or\<close> has as CF Python's probabilistic sum of the two CFs, whichever branch
    returns it;
  \<^item> the CF does not depend on the order of the operands;
  \<^item> the CF does not depend on the nesting, AND(AND(a, b), c) against
    AND(a, AND(b, c)), when the two inner products are exact, and for OR when the
    four probabilistic sums are exact. (It can depend on it when the floats
    round: see below.)
  A call can fail to return only when a payload is a series, whose comparison
  with the Stub marker is the library's. The last conjunct says that for
  payloads that are no series \<open>And\<close> and \<open>Or\<close> do return, a wrapped value whose
  payload is again no series, so that the nested calls return as well.
\<close>

theorem And_Or_cf_algebra:
  "(\<forall>r. And L [a, b] = Inr r \<longrightarrow> get_cf r = float_mul (get_cf a) (get_cf b))
   \<and> (\<forall>r. Or L [a, b] = Inr r \<longrightarrow>
          get_cf r = float_sub (float_add (get_cf a) (get_cf b)) (float_mul (get_cf a) (get_cf b)))
   \<and> (\<forall>r s. And L [a, b] = Inr r \<and> And L [b, a] = Inr s \<longrightarrow> get_cf r = get_cf s)
   \<and> (\<forall>r s. Or L [a, b] = Inr r \<and> Or L [b, a] = Inr s \<longrightarrow> get_cf r = get_cf s)
   \<and> (\<forall>ab bc l r. And L [a, b] = Inr ab \<and> And L [ab, c] = Inr l
          \<and> And L [b, c] = Inr bc \<and> And L [a, bc] = Inr r
          \<and> exact_conj (get_cf a) (get_cf b) \<and> exact_conj (get_cf b) (get_cf c)
          \<longrightarrow> get_cf l = get_cf r)
   \<and> (\<forall>ab bc l r. Or L [a, b] = Inr ab \<and> Or L [ab, c] = Inr l
          \<and> Or L [b, c] = Inr bc \<and> Or L [a, bc] = Inr r
          \<and> exact_disj (get_cf a) (get_cf b) \<and> exact_disj (get_cf ab) (get_cf c)
          \<and> exact_disj (get_cf b) (get_cf c) \<and> exact_disj (get_cf a) (get_cf bc)
          \<longrightarrow> get_cf l = get_cf r)
   \<and> (\<not> is_timeseries (get_val a) \<and> \<not> is_timeseries (get_val b) \<longrightarrow>
        (\<exists>v. And L [a, b] = Inr (T v (float_mul (get_cf a) (get_cf b))) \<and> \<not> is_timeseries v)
        \<and> (\<exists>v. Or L [a, b]
                  = Inr (T v (float_sub (float_add (get_cf a) (get_cf b))
                                        (float_mul (get_cf a) (get_cf b))))
               \<and> \<not> is_timeseries v))"
proof (intro conjI allI impI; (elim conjE)?)
  fix r assume "And L [a, b] = Inr r"
  then show "get_cf r = float_mul (get_cf a) (get_cf b)"
    by (simp add: And_two internal_and_cf)
next
  fix r assume "Or L [a, b] = Inr r"
  then show "get_cf r
      = float_sub (float_add (get_cf a) (get_cf b)) (float_mul (get_cf a) (get_cf b))"
    by (simp add: Or_two internal_or_cf)
next
  fix r s assume "And L [a, b] = Inr r" "And L [b, a] = Inr s"
  then have "get_cf r = float_mul (get_cf a) (get_cf b)"
    and "get_cf s = float_mul (get_cf b) (get_cf a)"
    by (simp_all add: And_two internal_and_cf)
  then show "get_cf r = get_cf s"
    by (simp add: float_mul_commute)
next
  fix r s assume "Or L [a, b] = Inr r" "Or L [b, a] = Inr s"
  then have "get_cf r
      = float_sub (float_add (get_cf a) (get_cf b)) (float_mul (get_cf a) (get_cf b))"
    and "get_cf s
      = float_sub (float_add (get_cf b) (get_cf a)) (float_mul (get_cf b) (get_cf a))"
    by (simp_all add: Or_two internal_or_cf)
  then show "get_cf r = get_cf s"
    by (simp add: float_mul_commute [of "get_cf a"] float_add_commute [of "get_cf a"])
next
  fix ab bc l r
  assume "And L [a, b] = Inr ab" "And L [ab, c] = Inr l" "And L [b, c] = Inr bc"
    "And L [a, bc] = Inr r"
    and e: "exact_conj (get_cf a) (get_cf b)" "exact_conj (get_cf b) (get_cf c)"
  then have ab: "get_cf ab = float_mul (get_cf a) (get_cf b)"
    and l: "get_cf l = float_mul (get_cf ab) (get_cf c)"
    and bc: "get_cf bc = float_mul (get_cf b) (get_cf c)"
    and r: "get_cf r = float_mul (get_cf a) (get_cf bc)"
    by (simp_all add: And_two internal_and_cf)
  from e have "get_cf ab = get_cf a * get_cf b" and "get_cf bc = get_cf b * get_cf c"
    by (simp_all add: exact_conj_def ab bc)
  then show "get_cf l = get_cf r"
    unfolding l r by (simp add: float_mul_def mult.assoc)
next
  fix ab bc l r
  assume "Or L [a, b] = Inr ab" "Or L [ab, c] = Inr l" "Or L [b, c] = Inr bc"
    "Or L [a, bc] = Inr r"
    and e: "exact_disj (get_cf a) (get_cf b)" "exact_disj (get_cf ab) (get_cf c)"
      "exact_disj (get_cf b) (get_cf c)" "exact_disj (get_cf a) (get_cf bc)"
  then have "get_cf ab
      = float_sub (float_add (get_cf a) (get_cf b)) (float_mul (get_cf a) (get_cf b))"
    and "get_cf l
      = float_sub (float_add (get_cf ab) (get_cf c)) (float_mul (get_cf ab) (get_cf c))"
    and "get_cf bc
      = float_sub (float_add (get_cf b) (get_cf c)) (float_mul (get_cf b) (get_cf c))"
    and "get_cf r
      = float_sub (float_add (get_cf a) (get_cf bc)) (float_mul (get_cf a) (get_cf bc))"
    by (simp_all add: Or_two internal_or_cf)
  with e have ab: "get_cf ab = get_cf a + get_cf b - get_cf a * get_cf b"
    and l: "get_cf l = get_cf ab + get_cf c - get_cf ab * get_cf c"
    and bc: "get_cf bc = get_cf b + get_cf c - get_cf b * get_cf c"
    and r: "get_cf r = get_cf a + get_cf bc - get_cf a * get_cf bc"
    by (simp_all add: exact_disj_def)
  show "get_cf l = get_cf r"
    unfolding l r ab bc by (simp add: algebra_simps)
next
  assume "\<not> is_timeseries (get_val a)" "\<not> is_timeseries (get_val b)"
  then show "\<exists>v. And L [a, b] = Inr (T v (float_mul (get_cf a) (get_cf b)))
                 \<and> \<not> is_timeseries v"
    unfolding And_two by (rule internal_and_total)
next
  assume "\<not> is_timeseries (get_val a)" "\<not> is_timeseries (get_val b)"
  then show "\<exists>v. Or L [a, b]
                  = Inr (T v (float_sub (float_add (get_cf a) (get_cf b))
                                        (float_mul (get_cf a) (get_cf b))))
                 \<and> \<not> is_timeseries v"
    unfolding Or_two by (rule internal_or_total)
qed

text \<open>
  The theorem at \<open>a\<close> = True (CF 1/2), \<open>b\<close> = Stub (CF 1/4), \<open>c\<close> = Unset (CF 1/8)
  for \<open>And\<close>, and at \<open>a\<close> = False, \<open>b\<close> = Stub, \<open>c\<close> = Unset with the same CFs for \<open>Or\<close>:
  the four calls of the two nestings return and every product and probabilistic
  sum is exact, both nestings having CF 1/64 under \<open>And\<close> and 43/64 under \<open>Or\<close>.
\<close>

theorem And_Or_cf_algebra_witness:
  "And null_traces [T (PBool True) (1/2), Stub (1/4)] = Inr (Stub (1/8))
   \<and> And null_traces [Stub (1/8), T PNone (1/8)] = Inr (T PNone (1/64))
   \<and> And null_traces [Stub (1/4), T PNone (1/8)] = Inr (T PNone (1/32))
   \<and> And null_traces [T (PBool True) (1/2), T PNone (1/32)] = Inr (T PNone (1/64))
   \<and> exact_conj (1/2) (1/4) \<and> exact_conj (1/4) (1/8)
   \<and> get_cf (T PNone (1/64))
       = float_mul (get_cf (T (PBool True) (1/2))) (get_cf (T PNone (1/32)))
   \<and> Or null_traces [T (PBool False) (1/2), Stub (1/4)] = Inr (Stub (5/8))
   \<and> Or null_traces [Stub (5/8), T PNone (1/8)] = Inr (T PNone (43/64))
   \<and> Or null_traces [Stub (1/4), T PNone (1/8)] = Inr (T PNone (11/32))
   \<and> Or null_traces [T (PBool False) (1/2), T PNone (11/32)] = Inr (T PNone (43/64))
   \<and> exact_disj (1/2) (1/4) \<and> exact_disj (5/8) (1/8)
   \<and> exact_disj (1/4) (1/8) \<and> exact_disj (1/2) (11/32)"
proof -
  note fl = float_mul_def float_add_def float_sub_def float_round_dyadic
  have 1: "And null_traces [T (PBool True) (1/2), Stub (1/4)] = Inr (Stub (1/8))"
    and 2: "And null_traces [Stub (1/8), T PNone (1/8)] = Inr (T PNone (1/64))"
    and 3: "And null_traces [Stub (1/4), T PNone (1/8)] = Inr (T PNone (1/32))"
    and 4: "And null_traces [T (PBool True) (1/2), T PNone (1/32)] = Inr (T PNone (1/64))"
    by (simp_all add: And_def internal_and_def more_internal_and_def is_stub_def py_or_def
        is_timeseries_def StubVal_def Stub_def fl)
  have 5: "Or null_traces [T (PBool False) (1/2), Stub (1/4)] = Inr (Stub (5/8))"
    and 6: "Or null_traces [Stub (5/8), T PNone (1/8)] = Inr (T PNone (43/64))"
    and 7: "Or null_traces [Stub (1/4), T PNone (1/8)] = Inr (T PNone (11/32))"
    and 8: "Or null_traces [T (PBool False) (1/2), T PNone (11/32)] = Inr (T PNone (43/64))"
    by (simp_all add: Or_def internal_or_def more_internal_or_def is_stub_def py_or_def
        is_timeseries_def StubVal_def Stub_def fl)
  have c: "exact_conj (1/2) (1/4)" "exact_conj (1/4) (1/8)"
    by (simp_all add: exact_conj_def fl)
  have d: "exact_disj (1/2) (1/4)" "exact_disj (5/8) (1/8)"
    "exact_disj (1/4) (1/8)" "exact_disj (1/2) (11/32)"
    by (simp_all add: exact_disj_def fl)
  from And_Or_cf_algebra [of null_traces "T (PBool True) (1/2)" "T PNone (1/32)"] 4
  have 9: "get_cf (T PNone (1/64))
      = float_mul (get_cf (T (PBool True) (1/2))) (get_cf (T PNone (1/32)))"
    by blast
  from 1 2 3 4 5 6 7 8 9 c d show ?thesis by blast
qed

text \<open>
  Claim C6 as stated has the CF associative for all operands. The CFs are floats,
  whose product rounds: with the CFs 0.1, 0.2 and 0.3, AND(AND(a, b), c) has the
  CF that Python prints as \<^verbatim>\<open>0.006000000000000001\<close> and AND(a, AND(b, c)) the one
  it prints as \<^verbatim>\<open>0.006\<close>.
\<close>

theorem And_cf_not_associative_counterexample:
  "And null_traces [T (PBool True) float_0_1, T (PBool True) float_0_2]
     = Inr (T (PBool True) (1441151880758559 / 2 ^ 56))
   \<and> And null_traces [T (PBool True) (1441151880758559 / 2 ^ 56), T (PBool True) float_0_3]
     = Inr (T (PBool True) (6917529027641083 / 2 ^ 60))
   \<and> And null_traces [T (PBool True) float_0_2, T (PBool True) float_0_3]
     = Inr (T (PBool True) (1080863910568919 / 2 ^ 54))
   \<and> And null_traces [T (PBool True) float_0_1, T (PBool True) (1080863910568919 / 2 ^ 54)]
     = Inr (T (PBool True) (3458764513820541 / 2 ^ 59))
   \<and> (6917529027641083 / 2 ^ 60 :: real) \<noteq> 3458764513820541 / 2 ^ 59"
proof (intro conjI)
  show "And null_traces [T (PBool True) float_0_1, T (PBool True) float_0_2]
     = Inr (T (PBool True) (1441151880758559 / 2 ^ 56))"
    by (simp only: And_True float_mul_0_1_0_2)
next
  show "And null_traces [T (PBool True) (1441151880758559 / 2 ^ 56), T (PBool True) float_0_3]
     = Inr (T (PBool True) (6917529027641083 / 2 ^ 60))"
    by (simp only: And_True float_mul_0_02_0_3)
next
  show "And null_traces [T (PBool True) float_0_2, T (PBool True) float_0_3]
     = Inr (T (PBool True) (1080863910568919 / 2 ^ 54))"
    by (simp only: And_True float_mul_0_2_0_3)
next
  show "And null_traces [T (PBool True) float_0_1, T (PBool True) (1080863910568919 / 2 ^ 54)]
     = Inr (T (PBool True) (3458764513820541 / 2 ^ 59))"
    by (simp only: And_True float_mul_0_1_0_06)
next
  show "(6917529027641083 / 2 ^ 60 :: real) \<noteq> 3458764513820541 / 2 ^ 59"
    by simp
qed

text \<open>
  The same happens under \<open>Or\<close>: with the CFs 0.1, 0.1 and 0.4, OR(OR(a, b), c) has the
  CF that Python prints as \<^verbatim>\<open>0.514\<close> and OR(a, OR(b, c)) the one it prints as
  \<^verbatim>\<open>0.5139999999999999\<close>. The four lemmas are the four probabilistic sums.
\<close>

lemma Or_False:
  "Or L [T (PBool False) c, T (PBool False) d]
     = Inr (T (PBool False) (float_sub (float_add c d) (float_mul c d)))"
  by (simp add: Or_two internal_or_def more_internal_or_def is_stub_Bare is_timeseries_def
      py_or_def StubVal_def)

lemma float_disj_0_1_0_1:
  "float_sub (float_add float_0_1 float_0_1) (float_mul float_0_1 float_0_1) = 3422735716801577 / 2 ^ 54"
proof -
  have a: "float_add float_0_1 float_0_1 = 3602879701896397 / 2 ^ 54"
  proof -
    have x: "float_0_1 + float_0_1 = (of_int 3602879701896397 / 2 ^ 54 :: real)"
      by (simp add: float_0_1_def)
    have "float_round (of_int 3602879701896397 / 2 ^ 54) = 3602879701896397 / 2 ^ 54"
      using float_round_exact [of 3602879701896397 54] by (simp add: float_scale_def)
    then show ?thesis
      by (simp only: float_add_def x)
  qed
  have m: "float_mul float_0_1 float_0_1 = 1441151880758559 / 2 ^ 57"
  proof -
    have x: "float_0_1 * float_0_1 = (of_int 12980742146337070512478121581609 / 2 ^ 110 :: real)"
      by (simp add: float_0_1_def)
    have b: "53 \<le> bit_length \<bar>12980742146337070512478121581609\<bar>" "bit_length \<bar>12980742146337070512478121581609\<bar> - 53 = 51"
      by code_simp+
    have "float_round (of_int 12980742146337070512478121581609 / 2 ^ 110) = 1441151880758559 / 2 ^ 57"
      using float_round_long [of 12980742146337070512478121581609 110] b
      by (simp add: float_scale_def round_half_even_def)
    then show ?thesis
      by (simp only: float_mul_def x)
  qed
  have s: "float_sub (3602879701896397 / 2 ^ 54) (1441151880758559 / 2 ^ 57) = 3422735716801577 / 2 ^ 54"
  proof -
    have x: "(3602879701896397 / 2 ^ 54) - (1441151880758559 / 2 ^ 57) = (of_int 27381885734412617 / 2 ^ 57 :: real)"
      by simp
    have b: "53 \<le> bit_length \<bar>27381885734412617\<bar>" "bit_length \<bar>27381885734412617\<bar> - 53 = 2"
      by code_simp+
    have "float_round (of_int 27381885734412617 / 2 ^ 57) = 3422735716801577 / 2 ^ 54"
      using float_round_long [of 27381885734412617 57] b
      by (simp add: float_scale_def round_half_even_def)
    then show ?thesis
      by (simp only: float_sub_def x)
  qed
  show ?thesis
    by (simp only: a m s)
qed

lemma float_disj_0_19_0_4:
  "float_sub (float_add (3422735716801577 / 2 ^ 54) float_0_4) (float_mul (3422735716801577 / 2 ^ 54) float_0_4) = 2314850208468435 / 2 ^ 52"
proof -
  have a: "float_add (3422735716801577 / 2 ^ 54) float_0_4 = 2657123780148593 / 2 ^ 52"
  proof -
    have x: "(3422735716801577 / 2 ^ 54) + float_0_4 = (of_int 10628495120594371 / 2 ^ 54 :: real)"
      by (simp add: float_0_4_def)
    have b: "53 \<le> bit_length \<bar>10628495120594371\<bar>" "bit_length \<bar>10628495120594371\<bar> - 53 = 1"
      by code_simp+
    have "float_round (of_int 10628495120594371 / 2 ^ 54) = 2657123780148593 / 2 ^ 52"
      using float_round_long [of 10628495120594371 54] b
      by (simp add: float_scale_def round_half_even_def)
    then show ?thesis
      by (simp only: float_add_def x)
  qed
  have m: "float_mul (3422735716801577 / 2 ^ 54) float_0_4 = 1369094286720631 / 2 ^ 54"
  proof -
    have x: "(3422735716801577 / 2 ^ 54) * float_0_4 = (of_int 12331705039020216446422260218069 / 2 ^ 107 :: real)"
      by (simp add: float_0_4_def)
    have b: "53 \<le> bit_length \<bar>12331705039020216446422260218069\<bar>" "bit_length \<bar>12331705039020216446422260218069\<bar> - 53 = 51"
      by code_simp+
    have "float_round (of_int 12331705039020216446422260218069 / 2 ^ 107) = 1369094286720631 / 2 ^ 54"
      using float_round_long [of 12331705039020216446422260218069 107] b
      by (simp add: float_scale_def round_half_even_def)
    then show ?thesis
      by (simp only: float_mul_def x)
  qed
  have s: "float_sub (2657123780148593 / 2 ^ 52) (1369094286720631 / 2 ^ 54) = 2314850208468435 / 2 ^ 52"
  proof -
    have x: "(2657123780148593 / 2 ^ 52) - (1369094286720631 / 2 ^ 54) = (of_int 9259400833873741 / 2 ^ 54 :: real)"
      by simp
    have b: "53 \<le> bit_length \<bar>9259400833873741\<bar>" "bit_length \<bar>9259400833873741\<bar> - 53 = 1"
      by code_simp+
    have "float_round (of_int 9259400833873741 / 2 ^ 54) = 2314850208468435 / 2 ^ 52"
      using float_round_long [of 9259400833873741 54] b
      by (simp add: float_scale_def round_half_even_def)
    then show ?thesis
      by (simp only: float_sub_def x)
  qed
  show ?thesis
    by (simp only: a m s)
qed

lemma float_disj_0_1_0_4:
  "float_sub (float_add float_0_1 float_0_4) (float_mul float_0_1 float_0_4) = 517913957147607 / 2 ^ 50"
proof -
  have a: "float_add float_0_1 float_0_4 = 1 / 2 ^ 1"
  proof -
    have x: "float_0_1 + float_0_4 = (of_int 18014398509481985 / 2 ^ 55 :: real)"
      by (simp add: float_0_1_def float_0_4_def)
    have b: "53 \<le> bit_length \<bar>18014398509481985\<bar>" "bit_length \<bar>18014398509481985\<bar> - 53 = 2"
      by code_simp+
    have "float_round (of_int 18014398509481985 / 2 ^ 55) = 1 / 2 ^ 1"
      using float_round_long [of 18014398509481985 55] b
      by (simp add: float_scale_def round_half_even_def)
    then show ?thesis
      by (simp only: float_add_def x)
  qed
  have m: "float_mul float_0_1 float_0_4 = 1441151880758559 / 2 ^ 55"
  proof -
    have x: "float_0_1 * float_0_4 = (of_int 12980742146337070512478121581609 / 2 ^ 108 :: real)"
      by (simp add: float_0_1_def float_0_4_def)
    have b: "53 \<le> bit_length \<bar>12980742146337070512478121581609\<bar>" "bit_length \<bar>12980742146337070512478121581609\<bar> - 53 = 51"
      by code_simp+
    have "float_round (of_int 12980742146337070512478121581609 / 2 ^ 108) = 1441151880758559 / 2 ^ 55"
      using float_round_long [of 12980742146337070512478121581609 108] b
      by (simp add: float_scale_def round_half_even_def)
    then show ?thesis
      by (simp only: float_mul_def x)
  qed
  have s: "float_sub (1 / 2 ^ 1) (1441151880758559 / 2 ^ 55) = 517913957147607 / 2 ^ 50"
  proof -
    have x: "(1 / 2 ^ 1) - (1441151880758559 / 2 ^ 55) = (of_int 16573246628723425 / 2 ^ 55 :: real)"
      by simp
    have b: "53 \<le> bit_length \<bar>16573246628723425\<bar>" "bit_length \<bar>16573246628723425\<bar> - 53 = 1"
      by code_simp+
    have "float_round (of_int 16573246628723425 / 2 ^ 55) = 517913957147607 / 2 ^ 50"
      using float_round_long [of 16573246628723425 55] b
      by (simp add: float_scale_def round_half_even_def)
    then show ?thesis
      by (simp only: float_sub_def x)
  qed
  show ?thesis
    by (simp only: a m s)
qed

lemma float_disj_0_1_0_46:
  "float_sub (float_add float_0_1 (517913957147607 / 2 ^ 50)) (float_mul float_0_1 (517913957147607 / 2 ^ 50)) = 4629700416936869 / 2 ^ 53"
proof -
  have a: "float_add float_0_1 (517913957147607 / 2 ^ 50) = 5044031582654955 / 2 ^ 53"
  proof -
    have x: "float_0_1 + (517913957147607 / 2 ^ 50) = (of_int 20176126330619821 / 2 ^ 55 :: real)"
      by (simp add: float_0_1_def)
    have b: "53 \<le> bit_length \<bar>20176126330619821\<bar>" "bit_length \<bar>20176126330619821\<bar> - 53 = 2"
      by code_simp+
    have "float_round (of_int 20176126330619821 / 2 ^ 55) = 5044031582654955 / 2 ^ 53"
      using float_round_long [of 20176126330619821 55] b
      by (simp add: float_scale_def round_half_even_def)
    then show ?thesis
      by (simp only: float_add_def x)
  qed
  have m: "float_mul float_0_1 (517913957147607 / 2 ^ 50) = 3314649325744685 / 2 ^ 56"
  proof -
    have x: "float_0_1 * (517913957147607 / 2 ^ 50) = (of_int 1865981683535953638470750471979 / 2 ^ 105 :: real)"
      by (simp add: float_0_1_def)
    have b: "53 \<le> bit_length \<bar>1865981683535953638470750471979\<bar>" "bit_length \<bar>1865981683535953638470750471979\<bar> - 53 = 48"
      by code_simp+
    have "float_round (of_int 1865981683535953638470750471979 / 2 ^ 105) = 3314649325744685 / 2 ^ 56"
      using float_round_long [of 1865981683535953638470750471979 105] b
      by (simp add: float_scale_def round_half_even_def)
    then show ?thesis
      by (simp only: float_mul_def x)
  qed
  have s: "float_sub (5044031582654955 / 2 ^ 53) (3314649325744685 / 2 ^ 56) = 4629700416936869 / 2 ^ 53"
  proof -
    have x: "(5044031582654955 / 2 ^ 53) - (3314649325744685 / 2 ^ 56) = (of_int 37037603335494955 / 2 ^ 56 :: real)"
      by simp
    have b: "53 \<le> bit_length \<bar>37037603335494955\<bar>" "bit_length \<bar>37037603335494955\<bar> - 53 = 3"
      by code_simp+
    have "float_round (of_int 37037603335494955 / 2 ^ 56) = 4629700416936869 / 2 ^ 53"
      using float_round_long [of 37037603335494955 56] b
      by (simp add: float_scale_def round_half_even_def)
    then show ?thesis
      by (simp only: float_sub_def x)
  qed
  show ?thesis
    by (simp only: a m s)
qed

lemma Or_cf_not_associative_example:
  "Or null_traces [T (PBool False) float_0_1, T (PBool False) float_0_1]
     = Inr (T (PBool False) (3422735716801577 / 2 ^ 54))
   \<and> Or null_traces [T (PBool False) (3422735716801577 / 2 ^ 54), T (PBool False) float_0_4]
     = Inr (T (PBool False) (2314850208468435 / 2 ^ 52))
   \<and> Or null_traces [T (PBool False) float_0_1, T (PBool False) float_0_4]
     = Inr (T (PBool False) (517913957147607 / 2 ^ 50))
   \<and> Or null_traces [T (PBool False) float_0_1, T (PBool False) (517913957147607 / 2 ^ 50)]
     = Inr (T (PBool False) (4629700416936869 / 2 ^ 53))
   \<and> (2314850208468435 / 2 ^ 52 :: real) \<noteq> 4629700416936869 / 2 ^ 53"
proof (intro conjI)
  show "Or null_traces [T (PBool False) float_0_1, T (PBool False) float_0_1]
     = Inr (T (PBool False) (3422735716801577 / 2 ^ 54))"
    by (simp only: Or_False float_disj_0_1_0_1)
next
  show "Or null_traces [T (PBool False) (3422735716801577 / 2 ^ 54), T (PBool False) float_0_4]
     = Inr (T (PBool False) (2314850208468435 / 2 ^ 52))"
    by (simp only: Or_False float_disj_0_19_0_4)
next
  show "Or null_traces [T (PBool False) float_0_1, T (PBool False) float_0_4]
     = Inr (T (PBool False) (517913957147607 / 2 ^ 50))"
    by (simp only: Or_False float_disj_0_1_0_4)
next
  show "Or null_traces [T (PBool False) float_0_1, T (PBool False) (517913957147607 / 2 ^ 50)]
     = Inr (T (PBool False) (4629700416936869 / 2 ^ 53))"
    by (simp only: Or_False float_disj_0_1_0_46)
next
  show "(2314850208468435 / 2 ^ 52 :: real) \<noteq> 4629700416936869 / 2 ^ 53"
    by simp
qed

subsection \<open>The conditional\<close>

lemma If_py_T:
  "If_py L (T v k) b c =
     (if v = PNone \<or> v = StubVal then Inr (T v k)
      else case py_bool L v of
             Inl e \<Rightarrow> Inl e
           | Inr t \<Rightarrow> Inr (if t then lift b else lift c))"
  by (auto simp: If_py_def py_or_def is_stub_T split: sum.splits)

text \<open>
  A bare condition is tested as it is: the bare Stub marker is returned, and
  every other bare scalar, \<^verbatim>\<open>None\<close> included, selects a branch by its truth value.
\<close>

lemma If_py_Bare:
  "\<not> is_timeseries v \<Longrightarrow>
     If_py L (Bare v) b c =
       (if v = StubVal then Inr (Bare v)
        else case py_bool L v of
               Inl e \<Rightarrow> Inl e
             | Inr t \<Rightarrow> Inr (if t then lift b else lift c))"
  by (auto simp: If_py_def py_or_def is_stub_Bare split: sum.splits)

text \<open>
  Claim C7. The condition is a wrapped value \<open>T v k\<close>.
  \<^item> If its payload is Unset or the Stub marker, \<open>If_py\<close> returns the condition
    itself, payload and CF unchanged, whatever the branches are.
  \<^item> Otherwise, if the payload is true, it returns the then-branch \<open>b\<close>, and if the
    payload is false, the else-branch \<open>c\<close>: as a wrapped value with the branch's
    own payload and CF. A bare branch \<open>Bare u\<close> comes back as \<open>T u 1\<close>, a wrapped
    branch as it is. The CF \<open>k\<close> of the condition does not occur in the result.
\<close>

theorem If_py_selects:
  "(v = PNone \<or> v = StubVal \<longrightarrow> If_py L (T v k) b c = Inr (T v k))
   \<and> (v \<noteq> PNone \<and> v \<noteq> StubVal \<and> py_bool L v = Inr True \<longrightarrow>
        If_py L (T v k) b c = Inr (T (get_val b) (get_cf b)))
   \<and> (v \<noteq> PNone \<and> v \<noteq> StubVal \<and> py_bool L v = Inr False \<longrightarrow>
        If_py L (T v k) b c = Inr (T (get_val c) (get_cf c)))
   \<and> T (get_val (Bare u)) (get_cf (Bare u)) = T u 1
   \<and> T (get_val (T u k')) (get_cf (T u k')) = T u k'"
proof (intro conjI impI)
  assume "v = PNone \<or> v = StubVal"
  then show "If_py L (T v k) b c = Inr (T v k)"
    by (simp add: If_py_T)
next
  assume "v \<noteq> PNone \<and> v \<noteq> StubVal \<and> py_bool L v = Inr True"
  then show "If_py L (T v k) b c = Inr (T (get_val b) (get_cf b))"
    by (simp add: If_py_T lift_eq)
next
  assume "v \<noteq> PNone \<and> v \<noteq> StubVal \<and> py_bool L v = Inr False"
  then show "If_py L (T v k) b c = Inr (T (get_val c) (get_cf c))"
    by (simp add: If_py_T lift_eq)
next
  show "T (get_val (Bare u)) (get_cf (Bare u)) = T u 1"
    by simp
next
  show "T (get_val (T u k')) (get_cf (T u k')) = T u k'"
    by simp
qed

text \<open>
  The theorem at \<^verbatim>\<open>If(Stub, 1, 2)\<close>, which returns the Stub, at a true condition
  with bare branches and at a false condition with a wrapped else-branch; the
  condition has CF 1/2 each time.
\<close>

theorem If_py_selects_witness:
  "If_py null_traces (Stub (1/2)) (Bare (PInt 1)) (Bare (PInt 2)) = Inr (Stub (1/2))
   \<and> If_py null_traces (T (PBool True) (1/2)) (Bare (PInt 1)) (Bare (PInt 2))
       = Inr (T (PInt 1) 1)
   \<and> If_py null_traces (T (PBool False) (1/2)) (Bare (PInt 1)) (T (PInt 2) (1/4))
       = Inr (T (PInt 2) (1/4))"
proof -
  have t: "py_bool null_traces (PBool True) = Inr True"
    and f: "py_bool null_traces (PBool False) = Inr False"
    by (simp_all add: py_bool_def)
  from If_py_selects [of StubVal null_traces "1/2" "Bare (PInt 1)" "Bare (PInt 2)"]
  have 1: "If_py null_traces (Stub (1/2)) (Bare (PInt 1)) (Bare (PInt 2)) = Inr (Stub (1/2))"
    by (simp add: Stub_def)
  from If_py_selects [of "PBool True" null_traces "1/2" "Bare (PInt 1)" "Bare (PInt 2)"] t
  have 2: "If_py null_traces (T (PBool True) (1/2)) (Bare (PInt 1)) (Bare (PInt 2))
             = Inr (T (PInt 1) 1)"
    by (simp add: StubVal_def)
  from If_py_selects [of "PBool False" null_traces "1/2" "Bare (PInt 1)" "T (PInt 2) (1/4)"] f
  have 3: "If_py null_traces (T (PBool False) (1/2)) (Bare (PInt 1)) (T (PInt 2) (1/4))
             = Inr (T (PInt 2) (1/4))"
    by (simp add: StubVal_def)
  from 1 2 3 show ?thesis by blast
qed

subsection \<open>The Stub marker\<close>

text \<open>
  Claim C8, amended. A wrapped value is classified as a Stub exactly when its
  payload is the string \<^verbatim>\<open>"#stub#"\<close>, and so is a bare value that is no series.
  The marker is that string: \<^verbatim>\<open>None\<close>, booleans, numbers, series and every other
  string are never classified as a Stub, and the marker differs from Unset.
\<close>

theorem is_stub_iff_marker_string:
  "is_stub L (T v c) = Inr (v = PStr ''#stub#'')
   \<and> (\<not> is_timeseries v \<longrightarrow> is_stub L (Bare v) = Inr (v = PStr ''#stub#''))
   \<and> StubVal = PStr ''#stub#''
   \<and> StubVal \<noteq> PNone"
proof (intro conjI impI)
  show "is_stub L (T v c) = Inr (v = PStr ''#stub#'')"
    by (simp add: is_stub_T StubVal_def)
next
  assume "\<not> is_timeseries v"
  then show "is_stub L (Bare v) = Inr (v = PStr ''#stub#'')"
    by (simp add: is_stub_Bare StubVal_def)
next
  show "StubVal = PStr ''#stub#''"
    by (rule StubVal_def)
next
  show "StubVal \<noteq> PNone"
    by (simp add: StubVal_def)
qed

text \<open>
  The theorem at the bare string \<^verbatim>\<open>"Female"\<close>, which is no Stub, and at a wrapped
  \<^verbatim>\<open>"#stub#"\<close>, which is one.
\<close>

theorem is_stub_iff_marker_string_witness:
  "\<not> is_timeseries (PStr ''Female'')
   \<and> is_stub null_traces (Bare (PStr ''Female'')) = Inr False
   \<and> is_stub null_traces (T (PStr ''#stub#'') 1) = Inr True"
proof -
  have n: "\<not> is_timeseries (PStr ''Female'')" by (simp add: is_timeseries_def)
  from is_stub_iff_marker_string [of null_traces "PStr ''Female''" 1] n
  have 1: "is_stub null_traces (Bare (PStr ''Female'')) = Inr False"
    by (simp add: StubVal_def)
  from is_stub_iff_marker_string [of null_traces "PStr ''#stub#''" 1]
  have 2: "is_stub null_traces (T (PStr ''#stub#'') 1) = Inr True"
    by (simp add: StubVal_def)
  from n 1 2 show ?thesis by blast
qed

text \<open>
  Claim C8 as stated has the marker equal to no ordinary scalar, such as a string
  that a fact holds. The marker is an ordinary string: a fact of type \<^verbatim>\<open>str\<close> whose
  value is \<^verbatim>\<open>"#stub#"\<close> equals it, is classified as a Stub wrapped or bare, and as
  a wrapped value is the very value \<^verbatim>\<open>Stub()\<close>.
\<close>

theorem stub_marker_is_a_string_counterexample:
  "PStr ''#stub#'' = StubVal
   \<and> is_stub null_traces (T (PStr ''#stub#'') 1) = Inr True
   \<and> is_stub null_traces (Bare (PStr ''#stub#'')) = Inr True
   \<and> T (PStr ''#stub#'') 1 = Stub 1"
  by (simp add: is_stub_def StubVal_def Stub_def is_timeseries_def)

subsection \<open>The operators \<^verbatim>\<open>~\<close> and \<^verbatim>\<open>!=\<close>\<close>

lemma T_invert_stub: "T_invert L (Stub c) = Inr (T (PBool False) c)"
  by (simp add: T_invert_def Stub_def StubVal_def py_bool_def)

lemma T_ne_stub:
  assumes "v = StubVal \<or> get_val b = StubVal"
  shows "T_ne L eq (T v c) b = Inr (T (PBool False) (float_mul c (get_cf b)))"
proof -
  have "py_or (is_stub L (T v c)) (is_stub L b) = Inr True"
  proof (cases "v = StubVal")
    case True
    then show ?thesis by (simp add: is_stub_T py_or_def)
  next
    case False
    with assms have b: "get_val b = StubVal" by simp
    then have "operand b" by (rule StubVal_operand)
    with b False show ?thesis by (simp add: is_stub_T is_stub_operand py_or_def)
  qed
  then have "process_binary L eq (T v c) b = Inr (Stub (float_mul c (get_cf b)))"
    by (simp add: process_binary_def cf_conj_def)
  then show ?thesis by (simp add: T_ne_def T_eq_def T_invert_stub)
qed

text \<open>
  Claim C9. \<^verbatim>\<open>~\<close> on a Stub returns the wrapped \<^verbatim>\<open>False\<close> with the Stub's CF, where
  \<open>Not_py\<close> returns the Stub; \<^verbatim>\<open>~\<close> on a wrapped \<^verbatim>\<open>None\<close> returns the wrapped \<^verbatim>\<open>None\<close>
  with CF 1, where \<open>Not_py\<close> returns the argument with its CF. So \<^verbatim>\<open>!=\<close>, which is
  \<^verbatim>\<open>~\<close> of \<^verbatim>\<open>==\<close>, returns the wrapped \<^verbatim>\<open>False\<close> (with Python's product of the CFs) whenever
  the payload of either operand is the Stub marker, whatever \<^verbatim>\<open>operator.eq\<close> is.
\<close>

theorem T_invert_differs_from_Not:
  "T_invert L (Stub c) = Inr (T (PBool False) c)
   \<and> Not_py L self (Stub c) = Inr (Stub c)
   \<and> T_invert L (T PNone c) = Inr (T PNone 1)
   \<and> Not_py L self (T PNone c) = Inr (T PNone c)
   \<and> (v = StubVal \<or> get_val b = StubVal \<longrightarrow>
        T_ne L eq (T v c) b = Inr (T (PBool False) (float_mul c (get_cf b))))"
proof (intro conjI impI)
  show "T_invert L (Stub c) = Inr (T (PBool False) c)"
    by (rule T_invert_stub)
next
  show "Not_py L self (Stub c) = Inr (Stub c)"
    by (rule Not_py_stub)
next
  show "T_invert L (T PNone c) = Inr (T PNone 1)"
    by (simp add: T_invert_def)
next
  show "Not_py L self (T PNone c) = Inr (T PNone c)"
    by (rule Not_py_unset)
next
  assume "v = StubVal \<or> get_val b = StubVal"
  then show "T_ne L eq (T v c) b = Inr (T (PBool False) (float_mul c (get_cf b)))"
    by (rule T_ne_stub)
qed

text \<open>
  The theorem at \<^verbatim>\<open>T(5, 1/2) != Stub(1/4)\<close> and at \<^verbatim>\<open>Stub(1/2) != 5\<close>, with an
  \<^verbatim>\<open>operator.eq\<close> that would raise if it were called.
\<close>

theorem T_invert_differs_from_Not_witness:
  "get_val (Stub (1/4)) = StubVal
   \<and> T_ne null_traces always_raises (T (PInt 5) (1/2)) (Stub (1/4))
       = Inr (T (PBool False) (1/8))
   \<and> T_ne null_traces always_raises (Stub (1/2)) (Bare (PInt 5))
       = Inr (T (PBool False) (1/2))"
proof -
  have s: "get_val (Stub (1/4)) = StubVal" by (simp add: Stub_def)
  have m: "float_mul (1/2) (1/4) = 1/8" "float_mul (1/2) 1 = 1/2"
    by (simp_all add: float_mul_def float_round_dyadic)
  from T_invert_differs_from_Not
    [of null_traces "1/2" Inr "PInt 5" "Stub (1/4)" always_raises] s
  have 1: "T_ne null_traces always_raises (T (PInt 5) (1/2)) (Stub (1/4))
             = Inr (T (PBool False) (1/8))"
    by (simp add: Stub_def m)
  from T_invert_differs_from_Not
    [of null_traces "1/2" Inr StubVal "Bare (PInt 5)" always_raises]
  have 2: "T_ne null_traces always_raises (Stub (1/2)) (Bare (PInt 5))
             = Inr (T (PBool False) (1/2))"
    by (simp add: Stub_def m)
  from s 1 2 show ?thesis by blast
qed

subsection \<open>Identity, not truthiness\<close>

text \<open>
  Claim C10. \<open>And\<close> takes a payload for \<^verbatim>\<open>False\<close> only if it is the boolean
  \<^verbatim>\<open>False\<close>, and \<open>Or\<close> takes a payload for \<^verbatim>\<open>True\<close> only if it is the boolean \<^verbatim>\<open>True\<close>:
  on two scalar payloads that are neither Unset nor the Stub marker, \<open>And\<close> returns
  \<^verbatim>\<open>True\<close> unless one is the boolean \<^verbatim>\<open>False\<close>, and \<open>Or\<close> returns \<^verbatim>\<open>False\<close> unless one is
  the boolean \<^verbatim>\<open>True\<close>, whatever their truth values. So the number 0, which is
  false, with \<^verbatim>\<open>True\<close> gives \<^verbatim>\<open>True\<close> under \<open>And\<close>, and the number 1, which is true,
  with \<^verbatim>\<open>False\<close> gives \<^verbatim>\<open>False\<close> under \<open>Or\<close>.
\<close>

theorem And_Or_identity_not_truthiness:
  "(\<not> is_timeseries x \<and> \<not> is_timeseries y \<and> x \<noteq> PNone \<and> y \<noteq> PNone
      \<and> x \<noteq> StubVal \<and> y \<noteq> StubVal \<longrightarrow>
        (x \<noteq> PBool False \<and> y \<noteq> PBool False \<longrightarrow>
           And L [T x c, T y d] = Inr (T (PBool True) (float_mul c d)))
        \<and> (x \<noteq> PBool True \<and> y \<noteq> PBool True \<longrightarrow>
           Or L [T x c, T y d] = Inr (T (PBool False) (float_sub (float_add c d) (float_mul c d)))))
   \<and> py_bool L (PInt 0) = Inr False
   \<and> And L [T (PInt 0) c, T (PBool True) d] = Inr (T (PBool True) (float_mul c d))
   \<and> py_bool L (PInt 1) = Inr True
   \<and> Or L [T (PInt 1) c, T (PBool False) d] = Inr (T (PBool False) (float_sub (float_add c d) (float_mul c d)))"
  by (simp add: py_bool_def And_two Or_two internal_and_def internal_or_def
      more_internal_and_def more_internal_or_def is_stub_Bare is_timeseries_def py_or_def
      StubVal_def)

text \<open>
  The theorem at the empty string, which is false, and the float 2.5, which is
  true: \<open>And\<close> of the two is \<^verbatim>\<open>True\<close> and \<open>Or\<close> of the two is \<^verbatim>\<open>False\<close>.
\<close>

theorem And_Or_identity_not_truthiness_witness:
  "py_bool null_traces (PStr []) = Inr False
   \<and> py_bool null_traces (PFloat (5/2)) = Inr True
   \<and> And null_traces [T (PStr []) (1/2), T (PFloat (5/2)) (1/2)] = Inr (T (PBool True) (1/4))
   \<and> Or null_traces [T (PStr []) (1/2), T (PFloat (5/2)) (1/2)] = Inr (T (PBool False) (3/4))"
proof -
  have b: "py_bool null_traces (PStr []) = Inr False"
    "py_bool null_traces (PFloat (5/2)) = Inr True"
    by (simp_all add: py_bool_def)
  have h: "\<not> is_timeseries (PStr [])" "\<not> is_timeseries (PFloat (5/2))"
    "PStr [] \<noteq> StubVal" "PFloat (5/2) \<noteq> StubVal"
    by (simp_all add: is_timeseries_def StubVal_def)
  from And_Or_identity_not_truthiness
    [of "PStr []" "PFloat (5/2)" null_traces "1/2" "1/2"] h
  have 1: "And null_traces [T (PStr []) (1/2), T (PFloat (5/2)) (1/2)]
             = Inr (T (PBool True) (1/4))"
    and 2: "Or null_traces [T (PStr []) (1/2), T (PFloat (5/2)) (1/2)]
             = Inr (T (PBool False) (3/4))"
    by (simp_all add: float_sub_def float_add_def float_mul_def float_round_dyadic)
  from b 1 2 show ?thesis by blast
qed

end
